theory Spec2Isabelle
  imports Complex_Main
begin

section \<open>The Spotify router of tiny-mixtape\<close>

text \<open>
  The router (\<^verbatim>\<open>src/unnamed/part_001\<close>) has four procedures: \<^verbatim>\<open>search\<close>,
  \<^verbatim>\<open>getRecommendations\<close>, \<^verbatim>\<open>getPlaylists\<close> and \<^verbatim>\<open>createPlaylist\<close>. Each is modelled
  as a function of the environment (what the upstream service and the local store
  answer), the session context and the validated input, which returns the result
  (\<open>Inl\<close> a thrown error, \<open>Inr\<close> the returned value) together with the effects it
  issued, in order. The function is the \<^verbatim>\<open>resolve\<close> function of the procedure,
  followed for \<^verbatim>\<open>getPlaylists\<close> by the parse of the result with the output schema of
  lines 173 to 195. The output schema of \<^verbatim>\<open>createPlaylist\<close> (two strings) accepts
  every result of the model; \<^verbatim>\<open>PlaylistTracksSchema\<close>, the output schema of the other
  two procedures, is not among the sources and is not modelled.

  A JavaScript number is modelled by its exact value, a rational. A number field of an
  input or of an upstream body holds the number as the JSON text writes it; the router
  reads it as the nearest double (\<open>double_of\<close>), and the products and quotients it
  computes are rounded to the nearest double, ties to even, as IEEE 754 prescribes
  (\<open>js_times\<close>, \<open>js_divide\<close>). NaN, the infinities, the sign of zero, overflow and the
  rendering of a number in a URL are outside the model. The sums and comparisons of the
  limit of \<^verbatim>\<open>getPlaylists\<close> are exact, as the doubles are for the limits the schema
  admits when they are integers, and so is the mean of the aggregator, which follows the
  spec. Counts (image sizes, durations, statuses, positions) are integers.
  Every request carries the session's bearer token; headers are left out of the model.
\<close>

subsection \<open>Data\<close>

record AudioFeatures =
  danceability :: rat
  energy :: rat
  tempo :: rat
  valence :: rat

record image =
  img_url :: string
  img_height :: int
  img_width :: int

text \<open>The error object of an error-shaped upstream body: \<^verbatim>\<open>{error: {status, message}}\<close>.\<close>

record upstream_error =
  status :: int
  message :: string

text \<open>A parsed upstream body: error-shaped (\<^verbatim>\<open>res.error\<close> is truthy) or the endpoint's payload.\<close>

datatype 'a reply = ErrorJson upstream_error | Json 'a

text \<open>A track object of the upstream service, with the fields the router reads.\<close>

record spotify_track =
  track_id :: string
  track_uri :: string
  track_name :: string
  track_preview_url :: "string option"
  track_artists :: "string list"
  track_album_name :: string
  track_album_images :: "image list"
  track_duration_ms :: int

text \<open>A playlist object of the upstream service; \<open>pl_track_ids\<close> is \<^verbatim>\<open>tracks.items[].track.id\<close>.\<close>

record spotify_playlist =
  pl_id :: string
  pl_name :: string
  pl_description :: string
  pl_images :: "image list"
  pl_track_ids :: "string list"

text \<open>A row of the local \<^verbatim>\<open>playlist\<close> table (the PlaylistOwnershipRecord).\<close>

record playlist_row =
  row_id :: string
  spotifyId :: string
  createdBy :: string

text \<open>A value of a URLSearchParams entry: a string, or a number before it is rendered.\<close>

datatype param = PStr string | PNum rat

text \<open>
  The requests the router sends, by endpoint, each with what the router puts into it:
  \<^item> \<open>SearchReq\<close>: GET \<^verbatim>\<open>/search\<close> with its search parameters;
  \<^item> \<open>RecommendationsReq\<close>: GET \<^verbatim>\<open>/recommendations\<close> with its search parameters;
  \<^item> \<open>AudioFeaturesReq\<close>: GET \<^verbatim>\<open>/audio-features\<close> with the \<^verbatim>\<open>ids\<close> parameter;
  \<^item> \<open>GetPlaylistReq\<close>: GET \<^verbatim>\<open>/playlists/{id}\<close>;
  \<^item> \<open>CreatePlaylistReq\<close>: POST \<^verbatim>\<open>/users/{user}/playlists\<close> with name, public and
    description in the body;
  \<^item> \<open>AddTracksReq\<close>: POST \<^verbatim>\<open>/playlists/{id}/tracks\<close> with position and uris in the
    body.
\<close>

datatype request =
    SearchReq "(string \<times> param) list"
  | RecommendationsReq "(string \<times> param) list"
  | AudioFeaturesReq string
  | GetPlaylistReq string
  | CreatePlaylistReq string string bool string
  | AddTracksReq string int "string list"

text \<open>
  The arguments of \<^verbatim>\<open>prisma.playlist.findMany\<close>; the order is always
  \<^verbatim>\<open>createdAt desc\<close>.
\<close>

record find_args =
  take_arg :: rat
  cursor_arg :: "string option"
  where_createdBy :: "string option"

datatype effect =
    Http request
  | DbCount "string option"
  | DbFindMany find_args
  | DbCreate string string

datatype db_error = PrismaClientKnownRequestError | OtherDbError

datatype create_outcome = Created | Rejected db_error

datatype cause = AggregateError "string list" | DbCause db_error | ZodError

text \<open>
  What a procedure throws: a \<^verbatim>\<open>TRPCError\<close> (code, message, cause), or the TypeError
  of reading a property of \<^verbatim>\<open>undefined\<close>. The cause is the aggregate of the add-track
  errors, the error of the store, or the error of the output schema.
\<close>

datatype failure = TRPCError string string "cause option" | TypeError

text \<open>
  The environment: the answer of each upstream endpoint and of the local store, as
  functions of the request, and the table \<^verbatim>\<open>TRPC_ERROR_CODE_KEY_BY_HTTP_STATUS\<close>
  (\<^verbatim>\<open>trpc-utils\<close> is not among the sources, so the table is a parameter). An endpoint
  answers an error-shaped body or a body of its own shape, of which the model keeps what
  the router reads: the tracks of a search or of a recommendation, the
  \<^verbatim>\<open>audio_features\<close> array, the playlist, the id of a created playlist, the snapshot
  id of an addition. \<open>playlist_create\<close> tells whether \<^verbatim>\<open>prisma.playlist.create\<close>
  returns or throws, for the given upstream id and user.
\<close>

record env =
  search_api :: "request \<Rightarrow> spotify_track list reply"
  recommendations_api :: "request \<Rightarrow> spotify_track list reply"
  audio_features_api :: "request \<Rightarrow> AudioFeatures list reply"
  playlist_api :: "request \<Rightarrow> spotify_playlist reply"
  create_playlist_api :: "request \<Rightarrow> string reply"
  add_tracks_api :: "request \<Rightarrow> string reply"
  playlist_count :: "string option \<Rightarrow> nat"
  playlist_findMany :: "find_args \<Rightarrow> playlist_row list"
  playlist_create :: "string \<Rightarrow> string \<Rightarrow> create_outcome"
  code_by_status :: "int \<Rightarrow> string option"

record ctx =
  accessToken :: string
  user_id :: string

subsection \<open>Numbers\<close>

text \<open>The number of binary digits of a positive integer.\<close>

function bit_length :: "int \<Rightarrow> int" where
  "bit_length n = (if n \<le> 0 then 0 else 1 + bit_length (n div 2))"
  by pat_completeness auto
termination
  by (relation "measure nat") auto

declare bit_length.simps [simp del]

definition pow2 :: "int \<Rightarrow> rat" where
  "pow2 k = (if 0 \<le> k then 2 ^ nat k else 1 / 2 ^ nat (- k))"

text \<open>The binary exponent of a number that is not zero: \<open>pow2 e \<le> \<bar>x\<bar> < pow2 (e + 1)\<close>.\<close>

definition binary_exponent :: "rat \<Rightarrow> int" where
  "binary_exponent x =
     (let (p, q) = quotient_of \<bar>x\<bar>;
          k = bit_length p - bit_length q
      in if pow2 k \<le> \<bar>x\<bar> then k else k - 1)"

text \<open>The nearest integer, the even one of two that are equally near.\<close>

definition round_half_even :: "rat \<Rightarrow> int" where
  "round_half_even m =
     (let f = \<lfloor>m\<rfloor>; r = m - of_int f
      in if r < 1 / 2 then f else if 1 / 2 < r then f + 1 else if even f then f else f + 1)"

text \<open>
  The double nearest to a number: 53 significant binary digits, a least exponent of
  -1022 (below it the doubles are spaced \<open>pow2 (- 1074)\<close> apart), ties to even. What
  exceeds the largest double is rounded as if the exponent had no upper bound, where
  JavaScript gives an infinity: such numbers are outside the model.
\<close>

definition double_of :: "rat \<Rightarrow> rat" where
  "double_of x =
     (if x = 0 then 0
      else (let quantum = pow2 (max (binary_exponent x) (- 1022) - 52)
            in of_int (round_half_even (x / quantum)) * quantum))"

definition max_double :: rat where
  "max_double = 2 ^ 1024 - 2 ^ 971"

text \<open>The operators \<^verbatim>\<open>*\<close> and \<^verbatim>\<open>/\<close> on doubles (the divisor is not zero).\<close>

definition js_times :: "rat \<Rightarrow> rat \<Rightarrow> rat" where
  "js_times a b = double_of (a * b)"

definition js_divide :: "rat \<Rightarrow> rat \<Rightarrow> rat" where
  "js_divide a b = double_of (a / b)"

subsection \<open>Helpers\<close>

definition digit_char :: "nat \<Rightarrow> char" where
  "digit_char d = ''0123456789'' ! d"

text \<open>The decimal digits of a natural number, most significant first.\<close>

function decimal :: "nat \<Rightarrow> string" where
  "decimal n =
     (if 10 \<le> n then decimal (n div 10) @ [digit_char (n mod 10)] else [digit_char n])"
  by pat_completeness auto
termination
  by (relation "measure (\<lambda>n. n)") auto

text \<open>An integer as a template literal renders it.\<close>

definition number_text :: "int \<Rightarrow> string" where
  "number_text i = (if 0 \<le> i then decimal (nat i) else CHR ''-'' # decimal (nat (- i)))"

text \<open>\<^verbatim>\<open>Array.prototype.join\<close>.\<close>

fun join :: "string \<Rightarrow> string list \<Rightarrow> string" where
  "join sep [] = []"
| "join sep [x] = x"
| "join sep (x # y # ys) = x @ sep @ join sep (y # ys)"

text \<open>\<^verbatim>\<open>Array.prototype.slice(start, end)\<close>: negative indices count from the end.\<close>

definition slice :: "'a list \<Rightarrow> int \<Rightarrow> int \<Rightarrow> 'a list" where
  "slice xs start stop =
     (let n = int (length xs);
          k = (if start < 0 then max (n + start) 0 else min start n);
          f = (if stop < 0 then max (n + stop) 0 else min stop n)
      in take (nat (f - k)) (drop (nat k) xs))"

text \<open>
  Modelled from the spec: \<^verbatim>\<open>range\<close> of \<^verbatim>\<open>utils/array\<close> is not among the sources.
  The spec's batches (positions 0, 100, ... covering every item; 150 uris give positions 0
  and 100) and the calls \<^verbatim>\<open>range(0, length - 1, 100)\<close> fix it as the progression
  \<open>start, start + step, ...\<close> up to and including \<open>stop\<close>. A step that is not positive
  is outside what the spec describes; the model gives the empty list there.
\<close>

function range_list :: "int \<Rightarrow> int \<Rightarrow> int \<Rightarrow> int list" where
  "range_list start stop step =
     (if step \<le> 0 \<or> stop < start then []
      else start # range_list (start + step) stop step)"
  by pat_completeness auto
termination
  by (relation "measure (\<lambda>(start, stop, step). nat (stop - start + 1))") auto

declare range_list.simps [simp del]

text \<open>
  Modelled from the spec: \<^verbatim>\<open>sequentialFetch\<close> of \<^verbatim>\<open>utils/fetch\<close> is not among the
  sources. Per the spec it issues the requests one after the other, in the order given,
  and returns the parsed bodies in that order, error-shaped ones included, without
  stopping at an error.
\<close>

fun sequentialFetch :: "(request \<Rightarrow> 'j) \<Rightarrow> request list \<Rightarrow> 'j list \<times> effect list" where
  "sequentialFetch api [] = ([], [])"
| "sequentialFetch api (c # cs) =
     (let body = api c; (bodies, issued) = sequentialFetch api cs
      in (body # bodies, Http c # issued))"

text \<open>
  Modelled from the spec: \<^verbatim>\<open>INITIAL_AUDIO_FEATURES\<close> of \<^verbatim>\<open>new-playlist-state\<close> is not
  among the sources. The spec calls it the all-zero sentinel.
\<close>

definition INITIAL_AUDIO_FEATURES :: AudioFeatures where
  "INITIAL_AUDIO_FEATURES = \<lparr>danceability = 0, energy = 0, tempo = 0, valence = 0\<rparr>"

text \<open>The error thrown for an error-shaped upstream body.\<close>

definition upstream_failure :: "env \<Rightarrow> upstream_error \<Rightarrow> failure" where
  "upstream_failure env e =
     TRPCError
       (case code_by_status env (status e) of
          Some c \<Rightarrow> c | None \<Rightarrow> ''INTERNAL_SERVER_ERROR'')
       (number_text (status e) @ ''! '' @ message e)
       None"

subsection \<open>createPlaylist\<close>

record create_input =
  uris :: "string list"
  name :: string
  isPublic :: bool
  description :: string

record create_output =
  out_name :: string
  out_url :: string

text \<open>The zod schema of the input: \<^verbatim>\<open>uris: z.array(z.string()).min(1)\<close>.\<close>

definition createPlaylist_input_ok :: "create_input \<Rightarrow> bool" where
  "createPlaylist_input_ok input = (1 \<le> length (uris input))"

definition MAX_ITEMS_PER_REQUEST :: int where
  "MAX_ITEMS_PER_REQUEST = 100"

definition playlist_url :: "string \<Rightarrow> string" where
  "playlist_url playlistId = ''https://open.spotify.com/playlist/'' @ playlistId"

text \<open>The add-track requests (\<^verbatim>\<open>configs\<close>, lines 342 to 361).\<close>

definition add_track_configs :: "string \<Rightarrow> string list \<Rightarrow> request list" where
  "add_track_configs playlistId us =
     map (\<lambda>position.
            AddTracksReq playlistId position
              (slice us position (position + MAX_ITEMS_PER_REQUEST)))
         (range_list 0 (int (length us) - 1) MAX_ITEMS_PER_REQUEST)"

text \<open>The errors of the error-shaped bodies (\<^verbatim>\<open>addTracksToPlaylistErrors\<close>).\<close>

fun reply_errors :: "'a reply list \<Rightarrow> upstream_error list" where
  "reply_errors [] = []"
| "reply_errors (ErrorJson e # rs) = e # reply_errors rs"
| "reply_errors (Json v # rs) = reply_errors rs"

definition error_line :: "upstream_error \<Rightarrow> string" where
  "error_line e = number_text (status e) @ ''! '' @ message e"

text \<open>The request that creates the upstream playlist (lines 313 to 327).\<close>

definition create_request :: "ctx \<Rightarrow> create_input \<Rightarrow> request" where
  "create_request c input =
     CreatePlaylistReq (user_id c) (name input) (isPublic input) (description input)"

definition createPlaylist ::
  "env \<Rightarrow> ctx \<Rightarrow> create_input \<Rightarrow> (failure + create_output) \<times> effect list" where
  "createPlaylist env c input =
     (let createReq = create_request c input
      in case create_playlist_api env createReq of
           ErrorJson e \<Rightarrow> (Inl (upstream_failure env e), [Http createReq])
         | Json playlistId \<Rightarrow>
             (let playlistUrl = playlist_url playlistId;
                  configs = add_track_configs playlistId (uris input);
                  (addTracksToPlaylistJson, issued) = sequentialFetch (add_tracks_api env) configs;
                  addTracksToPlaylistErrors = reply_errors addTracksToPlaylistJson
              in if length addTracksToPlaylistErrors > 0 then
                   (Inl (TRPCError ''INTERNAL_SERVER_ERROR''
                           (''Some tracks were not added to the playlist on Spotify. Visit ''
                              @ playlistUrl @ '' to manually add the tracks.'')
                           (Some (AggregateError (map error_line addTracksToPlaylistErrors)))),
                    Http createReq # issued)
                 else
                   (case playlist_create env playlistId (user_id c) of
                      Created \<Rightarrow>
                        (Inr \<lparr>out_name = name input, out_url = playlistUrl\<rparr>,
                         Http createReq # issued @ [DbCreate playlistId (user_id c)])
                    | Rejected e \<Rightarrow>
                        (if e = PrismaClientKnownRequestError then
                           (Inl (TRPCError ''INTERNAL_SERVER_ERROR''
                                   (''Unable to save playlist '' @ name input
                                      @ '' to the database, but the it'' @ [CHR 0x27] @ ''s available at ''
                                      @ playlistUrl @ ''.'')
                                   (Some (DbCause e))),
                            Http createReq # issued @ [DbCreate playlistId (user_id c)])
                         else
                           (Inr \<lparr>out_name = name input, out_url = playlistUrl\<rparr>,
                            Http createReq # issued @ [DbCreate playlistId (user_id c)])))))"

text \<open>The add-track bodies (position, uris) among the effects of a call, in order.\<close>

fun add_track_bodies :: "effect list \<Rightarrow> (int \<times> string list) list" where
  "add_track_bodies [] = []"
| "add_track_bodies (Http (AddTracksReq playlistId position us) # es) =
     (position, us) # add_track_bodies es"
| "add_track_bodies (e # es) = add_track_bodies es"

subsection \<open>search\<close>

record search_input =
  q :: string
  search_offset :: rat
  search_limit :: rat

text \<open>
  A track as the router returns it. \<open>pt_audioFeatures\<close> is \<open>None\<close> when the four
  feature fields are absent (search), and holds them when they are spread into the track
  (getRecommendations).
\<close>

record PlaylistTrack =
  pt_id :: string
  pt_uri :: string
  pt_name :: string
  pt_artists :: "string list"
  pt_previewUrl :: "string option"
  pt_albumName :: string
  pt_image :: "image option"
  pt_duration :: int
  pt_audioFeatures :: "AudioFeatures option"

text \<open>\<^verbatim>\<open>Array.prototype.at(-1)\<close>: the last element, undefined on the empty array.\<close>

definition at_last :: "'a list \<Rightarrow> 'a option" where
  "at_last xs = (if xs = [] then None else Some (last xs))"

definition track_fields :: "spotify_track \<Rightarrow> AudioFeatures option \<Rightarrow> PlaylistTrack" where
  "track_fields t af =
     \<lparr>pt_id = track_id t, pt_uri = track_uri t, pt_name = track_name t,
      pt_artists = track_artists t, pt_previewUrl = track_preview_url t,
      pt_albumName = track_album_name t, pt_image = at_last (track_album_images t),
      pt_duration = track_duration_ms t, pt_audioFeatures = af\<rparr>"

text \<open>
  The white space that \<^verbatim>\<open>String.prototype.trim\<close> removes, among the code units below
  256: tab, line feed, vertical tab, form feed, carriage return, space, no-break space.
\<close>

definition is_whitespace :: "char \<Rightarrow> bool" where
  "is_whitespace ch = (of_char ch \<in> {9, 10, 11, 12, 13, 32, 160 :: nat})"

definition trim :: "string \<Rightarrow> string" where
  "trim s = rev (dropWhile is_whitespace (rev (dropWhile is_whitespace s)))"

definition search_request :: "search_input \<Rightarrow> request" where
  "search_request input =
     SearchReq [(''q'', PStr (q input)), (''type'', PStr ''track''),
                (''offset'', PNum (double_of (search_offset input))),
                (''limit'', PNum (double_of (search_limit input)))]"

definition search ::
  "env \<Rightarrow> ctx \<Rightarrow> search_input \<Rightarrow> (failure + PlaylistTrack list) \<times> effect list" where
  "search env c input =
     (let req = search_request input
      in if trim (q input) = [] then (Inr [], [])
         else (case search_api env req of
                 ErrorJson e \<Rightarrow> (Inl (upstream_failure env e), [Http req])
               | Json items \<Rightarrow>
                   if length items = 0
                   then (Inl (TRPCError ''NOT_FOUND'' ''No tracks found'' None), [Http req])
                   else (Inr (map (\<lambda>item. track_fields item None) items), [Http req])))"

subsection \<open>getRecommendations\<close>

record recommendations_input =
  trackSeeds :: "string list"
  rec_limit :: rat
  in_danceability :: "rat option"
  in_tempo :: "rat option"
  in_valence :: "rat option"
  in_energy :: "rat option"

text \<open>The search parameters of the recommendation request (lines 85 to 103).\<close>

definition recommendation_params :: "recommendations_input \<Rightarrow> (string \<times> param) list" where
  "recommendation_params input =
     [(''seed_tracks'', PStr (join '','' (trackSeeds input))),
      (''limit'', PNum (double_of (rec_limit input)))]
     @ (case in_danceability input of
          None \<Rightarrow> []
        | Some d \<Rightarrow> [(''target_danceability'', PNum (js_divide (double_of d) 100))])
     @ (case in_tempo input of
          None \<Rightarrow> [] | Some t \<Rightarrow> [(''target_tempo'', PNum (double_of t))])
     @ (case in_valence input of
          None \<Rightarrow> []
        | Some v \<Rightarrow> [(''target_valence'', PNum (js_divide (double_of v) 100))])
     @ (case in_energy input of
          None \<Rightarrow> []
        | Some e \<Rightarrow> [(''target_energy'', PNum (js_divide (double_of e) 100))])"

text \<open>
  The zod schema of the input (lines 71 to 78), which checks the numbers as read. A
  target that is not given is \<open>None\<close>.
\<close>

definition percent_ok :: "rat option \<Rightarrow> bool" where
  "percent_ok target =
     (case target of None \<Rightarrow> True | Some x \<Rightarrow> 0 \<le> double_of x \<and> double_of x \<le> 100)"

definition getRecommendations_input_ok :: "recommendations_input \<Rightarrow> bool" where
  "getRecommendations_input_ok input =
     (length (trackSeeds input) \<le> 5
      \<and> 1 \<le> double_of (rec_limit input) \<and> double_of (rec_limit input) \<le> 100
      \<and> percent_ok (in_danceability input)
      \<and> percent_ok (in_valence input)
      \<and> percent_ok (in_energy input))"

text \<open>The features attached to a track when the lookup succeeded (lines 140 to 151).\<close>

definition floored_features :: "AudioFeatures \<Rightarrow> AudioFeatures" where
  "floored_features a =
     \<lparr>danceability = of_int \<lfloor>js_times (double_of (danceability a)) 100\<rfloor>,
      energy = of_int \<lfloor>js_times (double_of (energy a)) 100\<rfloor>,
      tempo = double_of (tempo a),
      valence = of_int \<lfloor>js_times (double_of (valence a)) 100\<rfloor>\<rparr>"

text \<open>
  The final \<^verbatim>\<open>res.tracks.map((track, i) => ...)\<close>, from index \<open>i\<close> on. Reading
  \<^verbatim>\<open>audio_features[i]\<close> past the end of the array gives undefined, whose property read
  throws a TypeError.
\<close>

fun map_tracks ::
  "AudioFeatures list reply \<Rightarrow> nat \<Rightarrow> spotify_track list \<Rightarrow> failure + PlaylistTrack list" where
  "map_tracks audioFeaturesRes i [] = Inr []"
| "map_tracks audioFeaturesRes i (track # tracks) =
     (case (case audioFeaturesRes of
              ErrorJson e \<Rightarrow> Inr INITIAL_AUDIO_FEATURES
            | Json fs \<Rightarrow> if i < length fs then Inr (floored_features (fs ! i)) else Inl TypeError) of
        Inl err \<Rightarrow> Inl err
      | Inr audioFeatures \<Rightarrow>
          (case map_tracks audioFeaturesRes (Suc i) tracks of
             Inl err \<Rightarrow> Inl err
           | Inr rest \<Rightarrow> Inr (track_fields track (Some audioFeatures) # rest)))"

definition getRecommendations ::
  "env \<Rightarrow> ctx \<Rightarrow> recommendations_input \<Rightarrow> (failure + PlaylistTrack list) \<times> effect list" where
  "getRecommendations env c input =
     (if length (trackSeeds input) = 0 then (Inr [], [])
      else
        (let req = RecommendationsReq (recommendation_params input)
         in case recommendations_api env req of
              ErrorJson e \<Rightarrow> (Inl (upstream_failure env e), [Http req])
            | Json tracks \<Rightarrow>
                (let afReq = AudioFeaturesReq (join '','' (map track_id tracks));
                     audioFeaturesRes = audio_features_api env afReq
                 in (map_tracks audioFeaturesRes 0 tracks, [Http req, Http afReq]))))"

subsection \<open>getPlaylists\<close>

text \<open>\<open>gp_limit\<close> and \<open>gp_cursor\<close> are \<open>None\<close> when the field is null or omitted.\<close>

record playlists_input =
  gp_limit :: "rat option"
  gp_cursor :: "string option"
  isCreatorOnly :: bool

record Playlist =
  p_id :: string
  p_name :: string
  p_description :: string
  p_image :: "image option"
  p_uri :: string
  p_audioFeatures :: AudioFeatures

record playlists_output =
  items :: "Playlist list"
  total :: nat
  nextCursor :: "string option"

text \<open>
  The zod schema of the input: \<^verbatim>\<open>limit: z.number().min(1).max(100).nullish()\<close>; the
  other two fields are constrained by their types only.
\<close>

definition getPlaylists_input_ok :: "playlists_input \<Rightarrow> bool" where
  "getPlaylists_input_ok input =
     (case gp_limit input of None \<Rightarrow> True | Some l \<Rightarrow> 1 \<le> l \<and> l \<le> 100)"

text \<open>
  Modelled from the spec: \<^verbatim>\<open>calculateAverageAudioFeatures\<close> of \<^verbatim>\<open>utils/audio-features\<close>
  is not among the sources. Per the spec it returns the element-wise arithmetic mean of
  the records, and for the empty list the zero record that also stands for
  "audio features unavailable".
\<close>

definition mean :: "rat list \<Rightarrow> rat" where
  "mean xs = sum_list xs / of_nat (length xs)"

definition calculateAverageAudioFeatures :: "AudioFeatures list \<Rightarrow> AudioFeatures" where
  "calculateAverageAudioFeatures fs =
     (if fs = [] then INITIAL_AUDIO_FEATURES
      else \<lparr>danceability = mean (map danceability fs),
            energy = mean (map energy fs),
            tempo = mean (map tempo fs),
            valence = mean (map valence fs)\<rparr>)"

text \<open>The arguments of the two store queries (lines 199 to 218).\<close>

definition effective_limit :: "playlists_input \<Rightarrow> rat" where
  "effective_limit input = (case gp_limit input of None \<Rightarrow> 50 | Some l \<Rightarrow> l)"

definition where_filter :: "ctx \<Rightarrow> playlists_input \<Rightarrow> string option" where
  "where_filter c input = (if isCreatorOnly input then Some (user_id c) else None)"

definition findMany_args :: "ctx \<Rightarrow> playlists_input \<Rightarrow> find_args" where
  "findMany_args c input =
     \<lparr>take_arg = effective_limit input + 1,
      cursor_arg = (case gp_cursor input of
                      None \<Rightarrow> None
                    | Some cu \<Rightarrow> if cu = [] then None else Some cu),
      where_createdBy = where_filter c input\<rparr>"

text \<open>
  Lines 220 to 224: the page and the next cursor. \<^verbatim>\<open>pop\<close> on an empty array gives
  undefined, and \<^verbatim>\<open>nextItem!.id\<close> then throws a TypeError.
\<close>

definition paginate ::
  "rat \<Rightarrow> playlist_row list \<Rightarrow> failure + playlist_row list \<times> string option" where
  "paginate limit found =
     (if of_nat (length found) > limit then
        (if found = [] then Inl TypeError
         else Inr (butlast found, Some (row_id (last found))))
      else Inr (found, None))"

text \<open>The audio-features requests for one upstream playlist (lines 241 to 261).\<close>

definition audio_feature_configs :: "spotify_playlist \<Rightarrow> request list" where
  "audio_feature_configs playlist =
     map (\<lambda>index.
            AudioFeaturesReq
              (join '','' (slice (pl_track_ids playlist) index (index + MAX_ITEMS_PER_REQUEST))))
         (range_list 0 (int (length (pl_track_ids playlist)) - 1) MAX_ITEMS_PER_REQUEST)"

text \<open>
  Lines 266 to 282: \<^verbatim>\<open>af.audio_features ?? INITIAL_AUDIO_FEATURES\<close>, flattened, the three
  bounded features scaled by 100, then averaged.
\<close>

definition percent_features :: "AudioFeatures \<Rightarrow> AudioFeatures" where
  "percent_features t =
     \<lparr>danceability = js_times (double_of (danceability t)) 100,
      energy = js_times (double_of (energy t)) 100,
      tempo = double_of (tempo t),
      valence = js_times (double_of (valence t)) 100\<rparr>"

definition average_of_bodies :: "AudioFeatures list reply list \<Rightarrow> AudioFeatures" where
  "average_of_bodies audioFeaturesForPlaylist =
     calculateAverageAudioFeatures
       (map percent_features
          (concat (map (\<lambda>af. case af of
                                ErrorJson e \<Rightarrow> [INITIAL_AUDIO_FEATURES]
                              | Json fs \<Rightarrow> fs)
                       audioFeaturesForPlaylist)))"

text \<open>\<^verbatim>\<open>playlist.images[1]\<close>: undefined when there are fewer than two images.\<close>

definition playlist_fields :: "spotify_playlist \<Rightarrow> AudioFeatures \<Rightarrow> Playlist" where
  "playlist_fields playlist af =
     \<lparr>p_id = pl_id playlist, p_name = pl_name playlist,
      p_description = pl_description playlist,
      p_image = (if 1 < length (pl_images playlist) then Some (pl_images playlist ! 1) else None),
      p_uri = playlist_url (pl_id playlist),
      p_audioFeatures = af\<rparr>"

text \<open>
  The upstream bodies as playlists: reading \<^verbatim>\<open>playlist.tracks.items\<close> of an error-shaped
  body throws a TypeError (\<open>None\<close> here).
\<close>

fun playlist_bodies :: "spotify_playlist reply list \<Rightarrow> spotify_playlist list option" where
  "playlist_bodies [] = Some []"
| "playlist_bodies (ErrorJson e # rs) = None"
| "playlist_bodies (Json p # rs) =
     (case playlist_bodies rs of None \<Rightarrow> None | Some ps \<Rightarrow> Some (p # ps))"

text \<open>The playlists before the first error-shaped body.\<close>

fun leading_playlists :: "spotify_playlist reply list \<Rightarrow> spotify_playlist list" where
  "leading_playlists [] = []"
| "leading_playlists (ErrorJson e # rs) = []"
| "leading_playlists (Json p # rs) = p # leading_playlists rs"

text \<open>
  Lines 226 to 293: the playlists of a page of rows. The lookups of the rows run
  concurrently, as do the chains of audio-features requests of the playlists; the effects
  are listed row by row. The TypeError is thrown at the first error-shaped body, after
  the chains of the playlists before it have been started; nothing cancels them, and
  their requests are listed.
\<close>

definition playlists_of_rows ::
  "env \<Rightarrow> playlist_row list \<Rightarrow> (failure + Playlist list) \<times> effect list" where
  "playlists_of_rows env rows =
     (let gets = map (\<lambda>playlist. GetPlaylistReq (spotifyId playlist)) rows;
          bodies = map (playlist_api env) gets
      in case playlist_bodies bodies of
           None \<Rightarrow>
             (Inl TypeError,
              map Http gets
              @ concat (map (\<lambda>playlist.
                               snd (sequentialFetch (audio_features_api env)
                                      (audio_feature_configs playlist)))
                            (leading_playlists bodies)))
         | Some spotifyPlaylists \<Rightarrow>
             (let audioFeatures =
                    map (\<lambda>playlist.
                           sequentialFetch (audio_features_api env) (audio_feature_configs playlist))
                        spotifyPlaylists;
                  averageAudioFeatures = map (\<lambda>fetched. average_of_bodies (fst fetched)) audioFeatures
              in (Inr (map (\<lambda>(playlist, af). playlist_fields playlist af)
                         (zip spotifyPlaylists averageAudioFeatures)),
                  map Http gets @ concat (map snd audioFeatures))))"

text \<open>The resolver (lines 196 to 299).\<close>

definition getPlaylists_resolve ::
  "env \<Rightarrow> ctx \<Rightarrow> playlists_input \<Rightarrow> (failure + playlists_output) \<times> effect list" where
  "getPlaylists_resolve env c input =
     (let limit = effective_limit input;
          queries = [DbCount (where_filter c input), DbFindMany (findMany_args c input)];
          total_count = playlist_count env (where_filter c input);
          found = playlist_findMany env (findMany_args c input)
      in case paginate limit found of
           Inl err \<Rightarrow> (Inl err, queries)
         | Inr (page, next) \<Rightarrow>
             (case playlists_of_rows env page of
                (Inl err, issued) \<Rightarrow> (Inl err, queries @ issued)
              | (Inr playlists, issued) \<Rightarrow>
                  (Inr \<lparr>items = playlists, total = total_count, nextCursor = next\<rparr>,
                   queries @ issued)))"

text \<open>
  The output schema (lines 173 to 195). The types of the model meet its constraints but
  one: \<^verbatim>\<open>image\<close> is a required object, and \<^verbatim>\<open>playlist.images[1]\<close> may be undefined.
\<close>

definition getPlaylists_output_ok :: "playlists_output \<Rightarrow> bool" where
  "getPlaylists_output_ok output = list_all (\<lambda>playlist. p_image playlist \<noteq> None) (items output)"

text \<open>
  The procedure: what the resolver returns is parsed with the output schema, and a
  failed parse is thrown as an internal error.
\<close>

definition getPlaylists ::
  "env \<Rightarrow> ctx \<Rightarrow> playlists_input \<Rightarrow> (failure + playlists_output) \<times> effect list" where
  "getPlaylists env c input =
     (case getPlaylists_resolve env c input of
        (Inl err, issued) \<Rightarrow> (Inl err, issued)
      | (Inr output, issued) \<Rightarrow>
          if getPlaylists_output_ok output then (Inr output, issued)
          else (Inl (TRPCError ''INTERNAL_SERVER_ERROR'' ''Output validation failed''
                       (Some ZodError)),
                issued))"

subsection \<open>Example environments and inputs\<close>

definition demo_ctx :: ctx where
  "demo_ctx = \<lparr>accessToken = ''token'', user_id = ''user1''\<rparr>"

definition demo_env :: env where
  "demo_env =
     \<lparr>search_api = (\<lambda>r. Json []),
      recommendations_api = (\<lambda>r. Json []),
      audio_features_api = (\<lambda>r. Json []),
      playlist_api = (\<lambda>r. ErrorJson \<lparr>status = 404, message = ''Not found''\<rparr>),
      create_playlist_api = (\<lambda>r. Json ''pl1''),
      add_tracks_api = (\<lambda>r. Json ''snapshot''),
      playlist_count = (\<lambda>w. 0),
      playlist_findMany = (\<lambda>a. []),
      playlist_create = (\<lambda>p u. Created),
      code_by_status = (\<lambda>s. if s = 404 then Some ''NOT_FOUND'' else None)\<rparr>"

definition demo_create_input :: create_input where
  "demo_create_input = \<lparr>uris = [''uri1'', ''uri2''], name = ''Mix'', isPublic = True, description = ''d''\<rparr>"

definition demo_create_input150 :: create_input where
  "demo_create_input150 =
     \<lparr>uris = replicate 150 ''spotify:track:x'', name = ''Mix'', isPublic = False,
      description = ''d''\<rparr>"

definition failing_env :: env where
  "failing_env =
     demo_env\<lparr>add_tracks_api :=
       (\<lambda>r. case r of
               AddTracksReq p pos us \<Rightarrow>
                 if pos = 0 then ErrorJson \<lparr>status = 429, message = ''Too many requests''\<rparr>
                 else Json ''snapshot''
             | _ \<Rightarrow> Json ''snapshot'')\<rparr>"

definition conflict_env :: env where
  "conflict_env = demo_env\<lparr>playlist_create := (\<lambda>p u. Rejected PrismaClientKnownRequestError)\<rparr>"

definition broken_store_env :: env where
  "broken_store_env = demo_env\<lparr>playlist_create := (\<lambda>p u. Rejected OtherDbError)\<rparr>"

definition blank_search_input :: search_input where
  "blank_search_input = \<lparr>q = '' '' @ [CHR 0x09] @ '' '', search_offset = 0, search_limit = 5\<rparr>"

definition demo_track :: "string \<Rightarrow> spotify_track" where
  "demo_track i =
     \<lparr>track_id = i, track_uri = ''spotify:track:'' @ i, track_name = ''Song '' @ i,
      track_preview_url = None, track_artists = [''Artist''],
      track_album_name = ''Album'', track_album_images = [],
      track_duration_ms = 180000\<rparr>"

definition demo_rec_input :: recommendations_input where
  "demo_rec_input =
     \<lparr>trackSeeds = [''seed1''], rec_limit = 2,
      in_danceability = Some 50, in_tempo = Some 120, in_valence = Some 0,
      in_energy = Some 100\<rparr>"

definition plain_rec_input :: recommendations_input where
  "plain_rec_input =
     \<lparr>trackSeeds = [''seed1''], rec_limit = 2,
      in_danceability = None, in_tempo = None, in_valence = None, in_energy = None\<rparr>"

definition demo_features :: "AudioFeatures list" where
  "demo_features =
     [\<lparr>danceability = 567 / 1000, energy = 1, tempo = 241 / 2, valence = 0\<rparr>,
      \<lparr>danceability = 57 / 100, energy = 29 / 100, tempo = 90, valence = 59 / 100\<rparr>]"

definition rec_env :: env where
  "rec_env =
     demo_env\<lparr>recommendations_api := (\<lambda>r. Json [demo_track ''a'', demo_track ''b'']),
              audio_features_api := (\<lambda>r. Json demo_features)\<rparr>"

definition fraction_rec_input :: recommendations_input where
  "fraction_rec_input =
     \<lparr>trackSeeds = [''seed1''], rec_limit = 2,
      in_danceability = Some (333 / 10), in_tempo = None, in_valence = None,
      in_energy = Some (999 / 10)\<rparr>"

definition rec_env_no_features :: env where
  "rec_env_no_features =
     rec_env\<lparr>audio_features_api := (\<lambda>r. ErrorJson \<lparr>status = 403, message = ''Forbidden''\<rparr>)\<rparr>"

definition demo_images :: "image list" where
  "demo_images =
     [\<lparr>img_url = ''https://i.scdn.co/image/large'', img_height = 640, img_width = 640\<rparr>,
      \<lparr>img_url = ''https://i.scdn.co/image/medium'', img_height = 300, img_width = 300\<rparr>,
      \<lparr>img_url = ''https://i.scdn.co/image/small'', img_height = 60, img_width = 60\<rparr>]"

definition demo_rows :: "nat \<Rightarrow> playlist_row list" where
  "demo_rows n =
     map (\<lambda>i. \<lparr>row_id = ''row'' @ decimal i, spotifyId = ''sp'' @ decimal i,
                createdBy = ''user1''\<rparr>)
         [0 ..< n]"

text \<open>
  A store of \<open>n\<close> rows that returns the first \<open>take\<close> of them, and an upstream service
  that knows every playlist, each with three images and two tracks.
\<close>

definition store_env :: "nat \<Rightarrow> env" where
  "store_env n =
     demo_env\<lparr>playlist_api :=
                (\<lambda>r. case r of
                        GetPlaylistReq i \<Rightarrow>
                          Json \<lparr>pl_id = i, pl_name = ''Mix'', pl_description = [],
                                pl_images = demo_images, pl_track_ids = [''t1'', ''t2'']\<rparr>
                      | _ \<Rightarrow> ErrorJson \<lparr>status = 400, message = ''Bad request''\<rparr>),
              audio_features_api :=
                (\<lambda>r. Json [\<lparr>danceability = 1 / 2, energy = 1 / 4, tempo = 100, valence = 1\<rparr>,
                            \<lparr>danceability = 1, energy = 3 / 4, tempo = 140, valence = 0\<rparr>]),
              playlist_count := (\<lambda>w. n),
              playlist_findMany := (\<lambda>a. take (nat \<lfloor>take_arg a\<rfloor>) (demo_rows n))\<rparr>"

definition demo_playlists_input :: playlists_input where
  "demo_playlists_input = \<lparr>gp_limit = Some 20, gp_cursor = None, isCreatorOnly = True\<rparr>"

section \<open>Properties\<close>

subsection \<open>Batching and sequential fetching\<close>

lemma slice_batch: "0 \<le> p \<Longrightarrow> slice xs p (p + 100) = take 100 (drop (nat p) xs)"
  by (auto simp: slice_def Let_def min_def)

lemma range_list_concat:
  "0 \<le> a \<Longrightarrow>
   concat (map (\<lambda>p. slice xs p (p + 100)) (range_list a (int (length xs) - 1) 100))
     = drop (nat a) xs"
proof (induction a "int (length xs) - 1" "100::int" rule: range_list.induct)
  case (1 start)
  show ?case
  proof (cases "int (length xs) - 1 < start")
    case True
    then show ?thesis using 1(2) by (subst range_list.simps) simp
  next
    case False
    have e: "nat (start + 100) = 100 + nat start" using 1(2) by simp
    have "take 100 (drop (nat start) xs) @ drop (nat (start + 100)) xs = drop (nat start) xs"
      unfolding e using append_take_drop_id [of 100 "drop (nat start) xs"] by simp
    then show ?thesis using 1 False
      by (subst range_list.simps) (simp add: slice_batch)
  qed
qed

lemma range_list_hundreds:
  "range_list (100 * int j) (int n - 1) 100 = map (\<lambda>k. 100 * int k) [j ..< (n + 99) div 100]"
proof (induction "100 * int j" "int n - 1" "100::int" arbitrary: j rule: range_list.induct)
  case 1
  show ?case
  proof (cases "int n - 1 < 100 * int j")
    case True
    then have "(n + 99) div 100 \<le> j" by linarith
    then show ?thesis using True by (subst range_list.simps) simp
  next
    case False
    then have lt: "j < (n + 99) div 100" by linarith
    have "range_list (100 * int j) (int n - 1) 100
            = 100 * int j # range_list (100 * int (Suc j)) (int n - 1) 100"
      using False by (subst range_list.simps) (simp add: algebra_simps)
    also have "\<dots> = 100 * int j # map (\<lambda>k. 100 * int k) [Suc j ..< (n + 99) div 100]"
      using 1(1)[of "Suc j"] False by (simp add: algebra_simps)
    also have "\<dots> = map (\<lambda>k. 100 * int k) [j ..< (n + 99) div 100]"
      using lt by (simp add: upt_conv_Cons)
    finally show ?thesis .
  qed
qed

lemma sequentialFetch_bodies: "fst (sequentialFetch api cs) = map api cs"
  by (induction cs) (auto simp: Let_def split: prod.splits)

lemma sequentialFetch_issued: "snd (sequentialFetch api cs) = map Http cs"
  by (induction cs) (auto simp: Let_def split: prod.splits)

lemma sequentialFetch_eq: "sequentialFetch api cs = (map api cs, map Http cs)"
  by (simp add: prod_eq_iff sequentialFetch_bodies sequentialFetch_issued)

lemma set_reply_errors: "set (reply_errors rs) = {e. ErrorJson e \<in> set rs}"
  by (induction rs rule: reply_errors.induct) auto

lemma add_track_bodies_append:
  "add_track_bodies (xs @ ys) = add_track_bodies xs @ add_track_bodies ys"
  by (induction xs rule: add_track_bodies.induct) auto

lemma add_track_bodies_map:
  "add_track_bodies (map (\<lambda>p. Http (AddTracksReq pid p (f p))) ps) = map (\<lambda>p. (p, f p)) ps"
  by (induction ps) auto

lemma add_track_bodies_configs:
  "add_track_bodies (map Http (add_track_configs pid us))
     = map (\<lambda>p. (p, slice us p (p + 100))) (range_list 0 (int (length us) - 1) 100)"
  by (simp add: add_track_configs_def MAX_ITEMS_PER_REQUEST_def comp_def add_track_bodies_map)

lemma createPlaylist_effects:
  assumes "create_playlist_api env (create_request c input) = Json pid"
  shows "add_track_bodies (snd (createPlaylist env c input))
           = add_track_bodies (map Http (add_track_configs pid (uris input)))"
  using assms
  by (auto simp: createPlaylist_def Let_def sequentialFetch_eq create_request_def add_track_bodies_append
      split: create_outcome.splits)

subsection \<open>createPlaylist\<close>

text \<open>
  Claim C2. Once the upstream playlist is created, the add-track requests of a
  createPlaylist call are issued for the start offsets 0, 100, 200, ..., every multiple of
  100 below the number of uris; each request carries its start offset as position and
  the uris from that offset up to the next one, so the batches concatenate to the input;
  150 uris give exactly two requests, at positions 0 and 100.
\<close>

theorem createPlaylist_batches:
  assumes "create_playlist_api env (create_request c input) = Json pid"
  shows "add_track_bodies (snd (createPlaylist env c input))
           = map (\<lambda>k. (100 * int k, take 100 (drop (100 * k) (uris input))))
                 [0 ..< (length (uris input) + 99) div 100]
         \<and> concat (map snd (add_track_bodies (snd (createPlaylist env c input)))) = uris input
         \<and> (length (uris input) = 150 \<longrightarrow>
              map fst (add_track_bodies (snd (createPlaylist env c input))) = [0, 100])"
proof -
  let ?bs = "add_track_bodies (snd (createPlaylist env c input))"
  let ?n = "length (uris input)"
  have r: "range_list 0 (int ?n - 1) 100 = map (\<lambda>k. 100 * int k) [0 ..< (?n + 99) div 100]"
    using range_list_hundreds [of 0 ?n] by simp
  have b: "?bs = map (\<lambda>p. (p, slice (uris input) p (p + 100))) (range_list 0 (int ?n - 1) 100)"
    using createPlaylist_effects [OF assms] by (simp add: add_track_bodies_configs)
  have 1: "?bs = map (\<lambda>k. (100 * int k, take 100 (drop (100 * k) (uris input))))
                 [0 ..< (?n + 99) div 100]"
    unfolding b r by (simp add: slice_batch comp_def nat_mult_distrib)
  have 2: "concat (map snd ?bs) = uris input"
    unfolding b using range_list_concat [of 0 "uris input"] by (simp add: comp_def)
  have 3: "?n = 150 \<longrightarrow> map fst ?bs = [0, 100]"
  proof
    assume "?n = 150"
    then have "[0 ..< (?n + 99) div 100] = [0, 1]" by (simp add: upt_conv_Cons)
    then show "map fst ?bs = [0, 100]" unfolding 1 by (simp add: comp_def)
  qed
  show ?thesis using 1 2 3 by blast
qed

theorem createPlaylist_batches_witness:
  "create_playlist_api demo_env (create_request demo_ctx demo_create_input150) = Json ''pl1''
   \<and> length (uris demo_create_input150) = 150
   \<and> map fst (add_track_bodies (snd (createPlaylist demo_env demo_ctx demo_create_input150)))
       = [0, 100]
   \<and> concat (map snd (add_track_bodies (snd (createPlaylist demo_env demo_ctx demo_create_input150))))
       = uris demo_create_input150"
proof -
  have h: "create_playlist_api demo_env (create_request demo_ctx demo_create_input150) = Json ''pl1''"
    by (simp add: demo_env_def)
  have n: "length (uris demo_create_input150) = 150"
    by (simp add: demo_create_input150_def)
  from createPlaylist_batches [OF h]
  have "concat (map snd (add_track_bodies (snd (createPlaylist demo_env demo_ctx demo_create_input150))))
          = uris demo_create_input150"
    and "length (uris demo_create_input150) = 150 \<longrightarrow>
          map fst (add_track_bodies (snd (createPlaylist demo_env demo_ctx demo_create_input150)))
            = [0, 100]"
    by blast+
  with h n show ?thesis by blast
qed

lemma reply_errors_none:
  "(reply_errors (map api cs) = []) = (\<forall>r\<in>set cs. \<exists>v. api r = Json v)"
proof (induction cs)
  case Nil
  then show ?case by simp
next
  case (Cons c cs)
  then show ?case by (cases "api c") auto
qed

text \<open>
  Claim C1. When some add-track body carries an error, createPlaylist throws an internal
  error whose cause aggregates one line per error-shaped body and whose message contains
  the URL of the upstream playlist; the call issues the creation request and the
  add-track requests and nothing else: no row is created in the local store and no
  request undoes the upstream playlist.
\<close>

theorem createPlaylist_partial_failure:
  assumes "create_playlist_api env (create_request c input) = Json pid"
    and "r \<in> set (add_track_configs pid (uris input))"
    and "add_tracks_api env r = ErrorJson e"
  shows "fst (createPlaylist env c input)
           = Inl (TRPCError ''INTERNAL_SERVER_ERROR''
                   (''Some tracks were not added to the playlist on Spotify. Visit ''
                      @ ''https://open.spotify.com/playlist/'' @ pid
                      @ '' to manually add the tracks.'')
                   (Some (AggregateError
                      (map error_line
                         (reply_errors
                            (map (add_tracks_api env) (add_track_configs pid (uris input))))))))
         \<and> set (reply_errors (map (add_tracks_api env) (add_track_configs pid (uris input))))
             = {e'. \<exists>r'\<in>set (add_track_configs pid (uris input)).
                      add_tracks_api env r' = ErrorJson e'}
         \<and> snd (createPlaylist env c input)
             = Http (create_request c input) # map Http (add_track_configs pid (uris input))
         \<and> (\<forall>p u. DbCreate p u \<notin> set (snd (createPlaylist env c input)))"
proof -
  let ?cs = "add_track_configs pid (uris input)"
  let ?errs = "reply_errors (map (add_tracks_api env) ?cs)"
  have "e \<in> set ?errs"
    using assms(2,3) by (force simp: set_reply_errors)
  then have ne: "?errs \<noteq> []" by auto
  have r: "createPlaylist env c input
             = (Inl (TRPCError ''INTERNAL_SERVER_ERROR''
                   (''Some tracks were not added to the playlist on Spotify. Visit ''
                      @ playlist_url pid @ '' to manually add the tracks.'')
                   (Some (AggregateError (map error_line ?errs)))),
                Http (create_request c input) # map Http ?cs)"
    using assms(1) ne by (simp add: createPlaylist_def Let_def sequentialFetch_eq)
  have s: "set ?errs = {e'. \<exists>r'\<in>set ?cs. add_tracks_api env r' = ErrorJson e'}"
    by (auto simp: set_reply_errors intro: rev_image_eqI)
  show ?thesis unfolding r using s by (auto simp: playlist_url_def)
qed

lemma demo_configs:
  "add_track_configs pid [''uri1'', ''uri2''] = [AddTracksReq pid 0 [''uri1'', ''uri2'']]"
  by (simp add: add_track_configs_def MAX_ITEMS_PER_REQUEST_def range_list.simps slice_def)

theorem createPlaylist_partial_failure_witness:
  "create_playlist_api failing_env (create_request demo_ctx demo_create_input) = Json ''pl1''
   \<and> AddTracksReq ''pl1'' 0 [''uri1'', ''uri2''] \<in> set (add_track_configs ''pl1'' (uris demo_create_input))
   \<and> createPlaylist failing_env demo_ctx demo_create_input
       = (Inl (TRPCError ''INTERNAL_SERVER_ERROR''
                 ''Some tracks were not added to the playlist on Spotify. Visit https://open.spotify.com/playlist/pl1 to manually add the tracks.''
                 (Some (AggregateError [''429! Too many requests'']))),
          [Http (CreatePlaylistReq ''user1'' ''Mix'' True ''d''),
           Http (AddTracksReq ''pl1'' 0 [''uri1'', ''uri2''])])"
proof -
  have h1: "create_playlist_api failing_env (create_request demo_ctx demo_create_input) = Json ''pl1''"
    by (simp add: failing_env_def demo_env_def)
  have h2: "AddTracksReq ''pl1'' 0 [''uri1'', ''uri2''] \<in> set (add_track_configs ''pl1'' (uris demo_create_input))"
    by (simp add: demo_configs demo_create_input_def)
  have h3: "add_tracks_api failing_env (AddTracksReq ''pl1'' 0 [''uri1'', ''uri2''])
              = ErrorJson \<lparr>status = 429, message = ''Too many requests''\<rparr>"
    by (simp add: failing_env_def)
  have l: "error_line \<lparr>status = 429, message = ''Too many requests''\<rparr> = ''429! Too many requests''"
    by (simp add: error_line_def number_text_def digit_char_def)
  from createPlaylist_partial_failure [OF h1 h2 h3] h1 h2 h3 l show ?thesis
    by (simp add: prod_eq_iff demo_configs create_request_def demo_ctx_def demo_create_input_def)
qed

text \<open>
  Claim C6. When every add-track body is a success and creating the row in the local
  store throws, createPlaylist returns the name and the URL of the playlist, unless the
  error is a \<^verbatim>\<open>PrismaClientKnownRequestError\<close>: that one is thrown on, with a message that
  gives the URL at which the playlist is available.
\<close>

theorem createPlaylist_persistence_failure:
  assumes "create_playlist_api env (create_request c input) = Json pid"
    and "\<forall>r\<in>set (add_track_configs pid (uris input)). \<exists>v. add_tracks_api env r = Json v"
    and "playlist_create env pid (user_id c) = Rejected err"
  shows "fst (createPlaylist env c input)
           = (if err = PrismaClientKnownRequestError
              then Inl (TRPCError ''INTERNAL_SERVER_ERROR''
                     (''Unable to save playlist '' @ name input
                        @ '' to the database, but the it'' @ [CHR 0x27] @ ''s available at ''
                        @ ''https://open.spotify.com/playlist/'' @ pid @ ''.'')
                     (Some (DbCause PrismaClientKnownRequestError)))
              else Inr \<lparr>out_name = name input,
                        out_url = ''https://open.spotify.com/playlist/'' @ pid\<rparr>)"
proof -
  have "reply_errors (map (add_tracks_api env) (add_track_configs pid (uris input))) = []"
    using assms(2) by (simp add: reply_errors_none)
  then show ?thesis
    using assms(1,3)
    by (simp add: createPlaylist_def Let_def sequentialFetch_eq playlist_url_def)
qed

theorem createPlaylist_persistence_failure_witness:
  "fst (createPlaylist conflict_env demo_ctx demo_create_input)
     = Inl (TRPCError ''INTERNAL_SERVER_ERROR''
              (''Unable to save playlist Mix to the database, but the it'' @ [CHR 0x27]
                 @ ''s available at https://open.spotify.com/playlist/pl1.'')
              (Some (DbCause PrismaClientKnownRequestError)))
   \<and> fst (createPlaylist broken_store_env demo_ctx demo_create_input)
     = Inr \<lparr>out_name = ''Mix'', out_url = ''https://open.spotify.com/playlist/pl1''\<rparr>"
proof -
  have a1: "create_playlist_api conflict_env (create_request demo_ctx demo_create_input) = Json ''pl1''"
    by (simp add: conflict_env_def demo_env_def)
  have a2: "\<forall>r\<in>set (add_track_configs ''pl1'' (uris demo_create_input)).
              \<exists>v. add_tracks_api conflict_env r = Json v"
    by (simp add: conflict_env_def demo_env_def)
  have a3: "playlist_create conflict_env ''pl1'' (user_id demo_ctx) = Rejected PrismaClientKnownRequestError"
    by (simp add: conflict_env_def)
  have b1: "create_playlist_api broken_store_env (create_request demo_ctx demo_create_input) = Json ''pl1''"
    by (simp add: broken_store_env_def demo_env_def)
  have b2: "\<forall>r\<in>set (add_track_configs ''pl1'' (uris demo_create_input)).
              \<exists>v. add_tracks_api broken_store_env r = Json v"
    by (simp add: broken_store_env_def demo_env_def)
  have b3: "playlist_create broken_store_env ''pl1'' (user_id demo_ctx) = Rejected OtherDbError"
    by (simp add: broken_store_env_def)
  from createPlaylist_persistence_failure [OF a1 a2 a3]
       createPlaylist_persistence_failure [OF b1 b2 b3]
  show ?thesis by (simp add: demo_create_input_def)
qed

subsection \<open>search\<close>

lemma trim_blank:
  assumes "\<forall>ch\<in>set s. is_whitespace ch"
  shows "trim s = []"
  using assms by (auto simp: trim_def dest: set_dropWhileD)

text \<open>
  Claim C9. A search whose query is empty or made of white space only returns the empty
  track list and issues no request.
\<close>

theorem search_blank:
  "\<forall>ch\<in>set (q input). is_whitespace ch \<Longrightarrow> search env c input = (Inr [], [])"
  by (simp add: search_def trim_blank)

theorem search_blank_witness:
  "search demo_env demo_ctx blank_search_input = (Inr [], [])
   \<and> search demo_env demo_ctx (blank_search_input\<lparr>q := []\<rparr>) = (Inr [], [])"
proof -
  have h1: "\<forall>ch\<in>set (q blank_search_input). is_whitespace ch"
    by (simp add: blank_search_input_def is_whitespace_def)
  have h2: "\<forall>ch\<in>set (q (blank_search_input\<lparr>q := []\<rparr>)). is_whitespace ch"
    by simp
  from search_blank [OF h1] search_blank [OF h2] show ?thesis by simp
qed

subsection \<open>getRecommendations\<close>

text \<open>
  The quotients of doubles at some decimal numbers: 33.3 and 99.9 divided by 100 are the
  doubles that print as 0.33299999999999996 and 0.9990000000000001, not 0.333 and 0.999.
\<close>

lemma double_quotients:
  "js_divide (double_of (333 / 10)) 100 = 1499698675914375 / 4503599627370496"
  "js_divide (double_of (999 / 10)) 100 = 2249548013871563 / 2251799813685248"
  "double_of (33299999999999996 / 10 ^ 17) = 1499698675914375 / 4503599627370496"
  "double_of (9990000000000001 / 10 ^ 16) = 2249548013871563 / 2251799813685248"
  by code_simp+

lemma exact_quotients:
  "js_divide (double_of 0) 100 = 0"
  "js_divide (double_of 50) 100 = 1 / 2"
  "js_divide (double_of 100) 100 = 1"
  by code_simp+

text \<open>
  Claim C7. Every recommendation request that a getRecommendations call issues carries
  the parameters built at lines 85 to 103, and a call with at least one seed issues that
  request first. In these parameters a given danceability, valence or energy target (a
  number from 0 to 100, as the input schema demands) appears divided by 100, the quotient
  being the one of the doubles: 0, 50 and 100 become 0, 1/2 and 1. A given tempo appears
  as it is, and a target that is not given has no entry; no key appears twice.
\<close>

theorem recommendation_request_params:
  assumes "getRecommendations_input_ok input"
    and "case in_tempo input of None \<Rightarrow> True | Some t \<Rightarrow> \<bar>t\<bar> \<le> max_double"
  shows "(\<forall>ps. Http (RecommendationsReq ps) \<in> set (snd (getRecommendations env c input))
            \<longrightarrow> ps = recommendation_params input)
         \<and> (trackSeeds input \<noteq> [] \<longrightarrow>
              (\<exists>rest. snd (getRecommendations env c input)
                        = Http (RecommendationsReq (recommendation_params input)) # rest))
         \<and> map_of (recommendation_params input) ''target_danceability''
             = map_option (\<lambda>d. PNum (js_divide (double_of d) 100)) (in_danceability input)
         \<and> map_of (recommendation_params input) ''target_valence''
             = map_option (\<lambda>v. PNum (js_divide (double_of v) 100)) (in_valence input)
         \<and> map_of (recommendation_params input) ''target_energy''
             = map_option (\<lambda>e. PNum (js_divide (double_of e) 100)) (in_energy input)
         \<and> map_of (recommendation_params input) ''target_tempo''
             = map_option (\<lambda>t. PNum (double_of t)) (in_tempo input)
         \<and> distinct (map fst (recommendation_params input))
         \<and> js_divide (double_of 0) 100 = 0
         \<and> js_divide (double_of 50) 100 = 1 / 2
         \<and> js_divide (double_of 100) 100 = 1"
proof -
  have 0: "\<forall>ps. Http (RecommendationsReq ps) \<in> set (snd (getRecommendations env c input))
             \<longrightarrow> ps = recommendation_params input"
  proof (cases "trackSeeds input = []")
    case True
    then show ?thesis by (simp add: getRecommendations_def)
  next
    case False
    then show ?thesis
      by (cases "recommendations_api env (RecommendationsReq (recommendation_params input))")
         (simp_all add: getRecommendations_def Let_def)
  qed
  have 1: "trackSeeds input \<noteq> [] \<longrightarrow>
             (\<exists>rest. snd (getRecommendations env c input)
                  = Http (RecommendationsReq (recommendation_params input)) # rest)"
    by (simp add: getRecommendations_def Let_def split: reply.splits)
  have 2: "map_of (recommendation_params input) ''target_danceability''
             = map_option (\<lambda>d. PNum (js_divide (double_of d) 100)) (in_danceability input)"
    by (simp add: recommendation_params_def split: option.splits)
  have 3: "map_of (recommendation_params input) ''target_valence''
             = map_option (\<lambda>v. PNum (js_divide (double_of v) 100)) (in_valence input)"
    by (simp add: recommendation_params_def split: option.splits)
  have 4: "map_of (recommendation_params input) ''target_energy''
             = map_option (\<lambda>e. PNum (js_divide (double_of e) 100)) (in_energy input)"
    by (simp add: recommendation_params_def split: option.splits)
  have 5: "map_of (recommendation_params input) ''target_tempo''
             = map_option (\<lambda>t. PNum (double_of t)) (in_tempo input)"
    by (simp add: recommendation_params_def split: option.splits)
  have 6: "distinct (map fst (recommendation_params input))"
    by (simp add: recommendation_params_def split: option.splits)
  show ?thesis by (intro conjI) (fact 0 1 2 3 4 5 6 exact_quotients)+
qed

lemma demo_inputs_ok:
  "getRecommendations_input_ok demo_rec_input"
  "getRecommendations_input_ok fraction_rec_input"
  "getRecommendations_input_ok plain_rec_input"
  by code_simp+

lemma demo_tempo_ok: "\<bar>120 :: rat\<bar> \<le> max_double"
  by code_simp

theorem recommendation_request_params_witness:
  "getRecommendations_input_ok demo_rec_input
   \<and> getRecommendations_input_ok fraction_rec_input
   \<and> trackSeeds demo_rec_input \<noteq> []
   \<and> map_of (recommendation_params demo_rec_input) ''target_danceability'' = Some (PNum (1 / 2))
   \<and> map_of (recommendation_params demo_rec_input) ''target_valence'' = Some (PNum 0)
   \<and> map_of (recommendation_params demo_rec_input) ''target_energy'' = Some (PNum 1)
   \<and> map_of (recommendation_params demo_rec_input) ''target_tempo'' = Some (PNum (double_of 120))
   \<and> map_of (recommendation_params fraction_rec_input) ''target_danceability''
       = Some (PNum (1499698675914375 / 4503599627370496))
   \<and> map_of (recommendation_params fraction_rec_input) ''target_energy''
       = Some (PNum (2249548013871563 / 2251799813685248))
   \<and> map_of (recommendation_params fraction_rec_input) ''target_valence'' = None
   \<and> map_of (recommendation_params fraction_rec_input) ''target_tempo'' = None
   \<and> hd (snd (getRecommendations rec_env demo_ctx demo_rec_input))
       = Http (RecommendationsReq (recommendation_params demo_rec_input))"
proof -
  have t1: "case in_tempo demo_rec_input of None \<Rightarrow> True | Some t \<Rightarrow> \<bar>t\<bar> \<le> max_double"
    using demo_tempo_ok by (simp add: demo_rec_input_def)
  have t2: "case in_tempo fraction_rec_input of None \<Rightarrow> True | Some t \<Rightarrow> \<bar>t\<bar> \<le> max_double"
    by (simp add: fraction_rec_input_def)
  note given = recommendation_request_params [OF demo_inputs_ok(1) t1, of rec_env demo_ctx]
  note fraction = recommendation_request_params [OF demo_inputs_ok(2) t2, of rec_env demo_ctx]
  have h: "trackSeeds demo_rec_input \<noteq> []" by (simp add: demo_rec_input_def)
  from given [THEN conjunct2, THEN conjunct1, rule_format, OF h]
  have 1: "hd (snd (getRecommendations rec_env demo_ctx demo_rec_input))
             = Http (RecommendationsReq (recommendation_params demo_rec_input))"
    by (elim exE) simp
  from given [THEN conjunct2, THEN conjunct2, THEN conjunct1]
  have 2: "map_of (recommendation_params demo_rec_input) ''target_danceability'' = Some (PNum (1 / 2))"
    by (simp add: demo_rec_input_def exact_quotients)
  from given [THEN conjunct2, THEN conjunct2, THEN conjunct2, THEN conjunct1]
  have 3: "map_of (recommendation_params demo_rec_input) ''target_valence'' = Some (PNum 0)"
    by (simp add: demo_rec_input_def exact_quotients)
  from given [THEN conjunct2, THEN conjunct2, THEN conjunct2, THEN conjunct2, THEN conjunct1]
  have 4: "map_of (recommendation_params demo_rec_input) ''target_energy'' = Some (PNum 1)"
    by (simp add: demo_rec_input_def exact_quotients)
  from given [THEN conjunct2, THEN conjunct2, THEN conjunct2, THEN conjunct2, THEN conjunct2,
              THEN conjunct1]
  have 5: "map_of (recommendation_params demo_rec_input) ''target_tempo''
             = Some (PNum (double_of 120))"
    by (simp add: demo_rec_input_def)
  from fraction [THEN conjunct2, THEN conjunct2, THEN conjunct1]
  have "map_of (recommendation_params fraction_rec_input) ''target_danceability''
          = Some (PNum (js_divide (double_of (333 / 10)) 100))"
    by (simp add: fraction_rec_input_def)
  then have 6: "map_of (recommendation_params fraction_rec_input) ''target_danceability''
                  = Some (PNum (1499698675914375 / 4503599627370496))"
    by (simp only: double_quotients)
  from fraction [THEN conjunct2, THEN conjunct2, THEN conjunct2, THEN conjunct2, THEN conjunct1]
  have "map_of (recommendation_params fraction_rec_input) ''target_energy''
          = Some (PNum (js_divide (double_of (999 / 10)) 100))"
    by (simp add: fraction_rec_input_def)
  then have 7: "map_of (recommendation_params fraction_rec_input) ''target_energy''
                  = Some (PNum (2249548013871563 / 2251799813685248))"
    by (simp only: double_quotients)
  from fraction [THEN conjunct2, THEN conjunct2, THEN conjunct2, THEN conjunct1]
  have 8: "map_of (recommendation_params fraction_rec_input) ''target_valence'' = None"
    by (simp add: fraction_rec_input_def)
  from fraction [THEN conjunct2, THEN conjunct2, THEN conjunct2, THEN conjunct2, THEN conjunct2,
                 THEN conjunct1]
  have 9: "map_of (recommendation_params fraction_rec_input) ''target_tempo'' = None"
    by (simp add: fraction_rec_input_def)
  show ?thesis by (intro conjI) (fact demo_inputs_ok h 1 2 3 4 5 6 7 8 9)+
qed

lemma map_tracks_error:
  "map_tracks (ErrorJson e) i ts
     = Inr (map (\<lambda>t. track_fields t (Some INITIAL_AUDIO_FEATURES)) ts)"
  by (induction ts arbitrary: i) auto

lemma map_tracks_json:
  "i + length ts \<le> length fs \<Longrightarrow>
   map_tracks (Json fs) i ts
     = Inr (map (\<lambda>(t, a). track_fields t (Some (floored_features a))) (zip ts (drop i fs)))"
proof (induction ts arbitrary: i)
  case Nil
  then show ?case by simp
next
  case (Cons t ts)
  then have i: "i < length fs" by simp
  have d: "drop i fs = fs ! i # drop (Suc i) fs"
    using i by (simp add: Cons_nth_drop_Suc)
  from Cons.prems have "Suc i + length ts \<le> length fs" by simp
  from Cons.IH [OF this] i show ?case by (simp add: d)
qed

text \<open>
  Claim C5. When the recommendation request succeeds and the audio-features lookup
  answers an error-shaped body, getRecommendations does not fail: it returns every
  recommended track, in order, with the track's own fields and with danceability,
  energy, tempo and valence zero.
\<close>

theorem recommendations_without_audio_features:
  assumes "trackSeeds input \<noteq> []"
    and "recommendations_api env (RecommendationsReq (recommendation_params input)) = Json tracks"
    and "audio_features_api env (AudioFeaturesReq (join '','' (map track_id tracks))) = ErrorJson e"
  shows "fst (getRecommendations env c input)
           = Inr (map (\<lambda>t. \<lparr>pt_id = track_id t, pt_uri = track_uri t, pt_name = track_name t,
                             pt_artists = track_artists t,
                             pt_previewUrl = track_preview_url t,
                             pt_albumName = track_album_name t,
                             pt_image = (if track_album_images t = [] then None
                                         else Some (last (track_album_images t))),
                             pt_duration = track_duration_ms t,
                             pt_audioFeatures =
                               Some \<lparr>danceability = 0, energy = 0, tempo = 0, valence = 0\<rparr>\<rparr>)
                      tracks)"
  using assms
  by (simp add: getRecommendations_def Let_def map_tracks_error INITIAL_AUDIO_FEATURES_def
      track_fields_def at_last_def)

theorem recommendations_without_audio_features_witness:
  "fst (getRecommendations rec_env_no_features demo_ctx demo_rec_input)
     = Inr [\<lparr>pt_id = ''a'', pt_uri = ''spotify:track:a'', pt_name = ''Song a'',
             pt_artists = [''Artist''], pt_previewUrl = None, pt_albumName = ''Album'',
             pt_image = None, pt_duration = 180000,
             pt_audioFeatures = Some \<lparr>danceability = 0, energy = 0, tempo = 0, valence = 0\<rparr>\<rparr>,
            \<lparr>pt_id = ''b'', pt_uri = ''spotify:track:b'', pt_name = ''Song b'',
             pt_artists = [''Artist''], pt_previewUrl = None, pt_albumName = ''Album'',
             pt_image = None, pt_duration = 180000,
             pt_audioFeatures = Some \<lparr>danceability = 0, energy = 0, tempo = 0, valence = 0\<rparr>\<rparr>]"
proof -
  have h1: "trackSeeds demo_rec_input \<noteq> []" by (simp add: demo_rec_input_def)
  have h2: "recommendations_api rec_env_no_features
              (RecommendationsReq (recommendation_params demo_rec_input))
              = Json [demo_track ''a'', demo_track ''b'']"
    by (simp add: rec_env_no_features_def rec_env_def)
  have h3: "audio_features_api rec_env_no_features
              (AudioFeaturesReq (join '','' (map track_id [demo_track ''a'', demo_track ''b''])))
              = ErrorJson \<lparr>status = 403, message = ''Forbidden''\<rparr>"
    by (simp add: rec_env_no_features_def)
  from recommendations_without_audio_features [OF h1 h2 h3] show ?thesis
    by (simp add: demo_track_def)
qed

lemma map_tracks_short:
  "i \<le> length fs \<Longrightarrow> length fs < i + length ts \<Longrightarrow> map_tracks (Json fs) i ts = Inl TypeError"
proof (induction ts arbitrary: i)
  case Nil
  then show ?case by simp
next
  case (Cons t ts)
  show ?case
  proof (cases "i < length fs")
    case True
    with Cons.prems have "Suc i \<le> length fs" "length fs < Suc i + length ts" by simp_all
    from Cons.IH [OF this] True show ?thesis by simp
  next
    case False
    then show ?thesis by simp
  qed
qed

text \<open>
  Claim C8. When the audio-features lookup succeeds with an entry for every track, each
  entry with danceability, energy and valence from 0 to 1, getRecommendations returns
  the tracks in order, the track at index \<open>i\<close> with its own fields, with the
  danceability, energy and valence of entry \<open>i\<close> multiplied by 100 (the product of the
  doubles) and floored, and with the tempo of entry \<open>i\<close> as it is. With fewer entries than
  tracks the call throws a TypeError and returns no track. The witness has 0.567 and 0.57
  become 56, 0.29 become 28 and 0.59 become 59.
\<close>

theorem recommendations_scaled_features:
  assumes "trackSeeds input \<noteq> []"
    and "recommendations_api env (RecommendationsReq (recommendation_params input)) = Json tracks"
    and "audio_features_api env (AudioFeaturesReq (join '','' (map track_id tracks))) = Json fs"
    and "\<forall>a\<in>set fs. 0 \<le> danceability a \<and> danceability a \<le> 1
                    \<and> 0 \<le> energy a \<and> energy a \<le> 1
                    \<and> 0 \<le> valence a \<and> valence a \<le> 1
                    \<and> \<bar>tempo a\<bar> \<le> max_double"
  shows "(length tracks \<le> length fs \<longrightarrow>
            (\<exists>out. fst (getRecommendations env c input) = Inr out
               \<and> length out = length tracks
               \<and> (\<forall>i<length tracks.
                     out ! i =
                       \<lparr>pt_id = track_id (tracks ! i), pt_uri = track_uri (tracks ! i),
                        pt_name = track_name (tracks ! i),
                        pt_artists = track_artists (tracks ! i),
                        pt_previewUrl = track_preview_url (tracks ! i),
                        pt_albumName = track_album_name (tracks ! i),
                        pt_image = (if track_album_images (tracks ! i) = [] then None
                                    else Some (last (track_album_images (tracks ! i)))),
                        pt_duration = track_duration_ms (tracks ! i),
                        pt_audioFeatures =
                          Some \<lparr>danceability =
                                   of_int \<lfloor>js_times (double_of (danceability (fs ! i))) 100\<rfloor>,
                                 energy = of_int \<lfloor>js_times (double_of (energy (fs ! i))) 100\<rfloor>,
                                 tempo = double_of (tempo (fs ! i)),
                                 valence =
                                   of_int \<lfloor>js_times (double_of (valence (fs ! i))) 100\<rfloor>\<rparr>\<rparr>)))
         \<and> (length fs < length tracks \<longrightarrow> fst (getRecommendations env c input) = Inl TypeError)"
proof -
  let ?out = "map (\<lambda>(t, a). track_fields t (Some (floored_features a))) (zip tracks fs)"
  have r: "fst (getRecommendations env c input) = map_tracks (Json fs) 0 tracks"
    using assms(1-3) by (simp add: getRecommendations_def Let_def)
  have 1: "\<exists>out. fst (getRecommendations env c input) = Inr out
               \<and> length out = length tracks
               \<and> (\<forall>i<length tracks.
                     out ! i =
                       \<lparr>pt_id = track_id (tracks ! i), pt_uri = track_uri (tracks ! i),
                        pt_name = track_name (tracks ! i),
                        pt_artists = track_artists (tracks ! i),
                        pt_previewUrl = track_preview_url (tracks ! i),
                        pt_albumName = track_album_name (tracks ! i),
                        pt_image = (if track_album_images (tracks ! i) = [] then None
                                    else Some (last (track_album_images (tracks ! i)))),
                        pt_duration = track_duration_ms (tracks ! i),
                        pt_audioFeatures =
                          Some \<lparr>danceability =
                                   of_int \<lfloor>js_times (double_of (danceability (fs ! i))) 100\<rfloor>,
                                 energy = of_int \<lfloor>js_times (double_of (energy (fs ! i))) 100\<rfloor>,
                                 tempo = double_of (tempo (fs ! i)),
                                 valence =
                                   of_int \<lfloor>js_times (double_of (valence (fs ! i))) 100\<rfloor>\<rparr>\<rparr>)"
    if le: "length tracks \<le> length fs"
  proof -
    have "fst (getRecommendations env c input) = Inr ?out"
      using le map_tracks_json [of 0 tracks fs] by (simp add: r)
    moreover have "length ?out = length tracks"
      using le by simp
    moreover have "\<forall>i<length tracks. ?out ! i =
                       \<lparr>pt_id = track_id (tracks ! i), pt_uri = track_uri (tracks ! i),
                        pt_name = track_name (tracks ! i),
                        pt_artists = track_artists (tracks ! i),
                        pt_previewUrl = track_preview_url (tracks ! i),
                        pt_albumName = track_album_name (tracks ! i),
                        pt_image = (if track_album_images (tracks ! i) = [] then None
                                    else Some (last (track_album_images (tracks ! i)))),
                        pt_duration = track_duration_ms (tracks ! i),
                        pt_audioFeatures =
                          Some \<lparr>danceability =
                                   of_int \<lfloor>js_times (double_of (danceability (fs ! i))) 100\<rfloor>,
                                 energy = of_int \<lfloor>js_times (double_of (energy (fs ! i))) 100\<rfloor>,
                                 tempo = double_of (tempo (fs ! i)),
                                 valence =
                                   of_int \<lfloor>js_times (double_of (valence (fs ! i))) 100\<rfloor>\<rparr>\<rparr>"
      using le by (simp add: floored_features_def track_fields_def at_last_def)
    ultimately show ?thesis by blast
  qed
  have 2: "fst (getRecommendations env c input) = Inl TypeError"
    if "length fs < length tracks"
    using that map_tracks_short [of 0 fs tracks] by (simp add: r)
  show ?thesis using 1 2 by blast
qed

text \<open>
  The products of doubles at some decimal numbers: 0.567, 0.57, 0.29 and 0.58 times 100
  lie below 56.7, 57, 29 and 58, and 0.59 times 100 is 59.
\<close>

lemma demo_features_values:
  "\<lfloor>js_times (double_of (567 / 1000)) 100\<rfloor> = 56"
  "\<lfloor>js_times (double_of (57 / 100)) 100\<rfloor> = 56"
  "\<lfloor>js_times (double_of (29 / 100)) 100\<rfloor> = 28"
  "\<lfloor>js_times (double_of (58 / 100)) 100\<rfloor> = 57"
  "\<lfloor>js_times (double_of (59 / 100)) 100\<rfloor> = 59"
  "\<lfloor>js_times (double_of 1) 100\<rfloor> = 100"
  "\<lfloor>js_times (double_of 0) 100\<rfloor> = 0"
  "double_of (241 / 2) = 241 / 2"
  "double_of 90 = 90"
  by code_simp+

lemma demo_features_ok:
  "\<forall>a\<in>set demo_features. 0 \<le> danceability a \<and> danceability a \<le> 1
                    \<and> 0 \<le> energy a \<and> energy a \<le> 1
                    \<and> 0 \<le> valence a \<and> valence a \<le> 1
                    \<and> \<bar>tempo a\<bar> \<le> max_double"
  by code_simp

theorem recommendations_scaled_features_witness:
  "map pt_audioFeatures (projr (fst (getRecommendations rec_env demo_ctx demo_rec_input)))
     = [Some \<lparr>danceability = 56, energy = 100, tempo = 241 / 2, valence = 0\<rparr>,
        Some \<lparr>danceability = 56, energy = 28, tempo = 90, valence = 59\<rparr>]
   \<and> map pt_id (projr (fst (getRecommendations rec_env demo_ctx demo_rec_input))) = [''a'', ''b'']"
proof -
  have h1: "trackSeeds demo_rec_input \<noteq> []" by (simp add: demo_rec_input_def)
  have h2: "recommendations_api rec_env (RecommendationsReq (recommendation_params demo_rec_input))
              = Json [demo_track ''a'', demo_track ''b'']"
    by (simp add: rec_env_def)
  have h3: "audio_features_api rec_env
              (AudioFeaturesReq (join '','' (map track_id [demo_track ''a'', demo_track ''b''])))
              = Json demo_features"
    by (simp add: rec_env_def)
  have h4: "length [demo_track ''a'', demo_track ''b''] \<le> length demo_features"
    by (simp add: demo_features_def)
  from recommendations_scaled_features [OF h1 h2 h3 demo_features_ok, of demo_ctx] h4
  obtain out where o: "fst (getRecommendations rec_env demo_ctx demo_rec_input) = Inr out"
    and l: "length out = 2"
    and n: "\<forall>i<2. out ! i =
                       \<lparr>pt_id = track_id ([demo_track ''a'', demo_track ''b''] ! i),
                        pt_uri = track_uri ([demo_track ''a'', demo_track ''b''] ! i),
                        pt_name = track_name ([demo_track ''a'', demo_track ''b''] ! i),
                        pt_artists = track_artists ([demo_track ''a'', demo_track ''b''] ! i),
                        pt_previewUrl = track_preview_url ([demo_track ''a'', demo_track ''b''] ! i),
                        pt_albumName = track_album_name ([demo_track ''a'', demo_track ''b''] ! i),
                        pt_image = (if track_album_images ([demo_track ''a'', demo_track ''b''] ! i) = []
                                    then None
                                    else Some (last (track_album_images
                                                       ([demo_track ''a'', demo_track ''b''] ! i)))),
                        pt_duration = track_duration_ms ([demo_track ''a'', demo_track ''b''] ! i),
                        pt_audioFeatures =
                          Some \<lparr>danceability =
                                   of_int \<lfloor>js_times (double_of (danceability (demo_features ! i))) 100\<rfloor>,
                                 energy =
                                   of_int \<lfloor>js_times (double_of (energy (demo_features ! i))) 100\<rfloor>,
                                 tempo = double_of (tempo (demo_features ! i)),
                                 valence =
                                   of_int \<lfloor>js_times (double_of (valence (demo_features ! i))) 100\<rfloor>\<rparr>\<rparr>"
    by auto
  from n have n0: "pt_audioFeatures (out ! 0)
                     = Some \<lparr>danceability = 56, energy = 100, tempo = 241 / 2, valence = 0\<rparr>"
    and i0: "pt_id (out ! 0) = ''a''"
    by (simp_all add: demo_features_def demo_features_values demo_track_def)
  from n have n1: "pt_audioFeatures (out ! 1)
                     = Some \<lparr>danceability = 56, energy = 28, tempo = 90, valence = 59\<rparr>"
    and i1: "pt_id (out ! 1) = ''b''"
    by (simp_all add: demo_features_def demo_features_values demo_track_def)
  from l have "out = [out ! 0, out ! 1]"
    by (cases out; cases "tl out"; cases "tl (tl out)") auto
  then have "map pt_audioFeatures out = [pt_audioFeatures (out ! 0), pt_audioFeatures (out ! 1)]"
    and "map pt_id out = [pt_id (out ! 0), pt_id (out ! 1)]"
    by (metis list.simps(8) list.simps(9))+
  with o n0 n1 i0 i1 show ?thesis by simp
qed

subsection \<open>The audio feature aggregator\<close>

text \<open>
  Claim C4. For a non-empty list of records, each field of the result of
  calculateAverageAudioFeatures is the arithmetic mean of that field; for the empty list
  the result is the all-zero record.
\<close>

theorem average_audio_features:
  "(fs \<noteq> [] \<longrightarrow>
      danceability (calculateAverageAudioFeatures fs)
        = sum_list (map danceability fs) / of_nat (length fs)
      \<and> energy (calculateAverageAudioFeatures fs)
        = sum_list (map energy fs) / of_nat (length fs)
      \<and> tempo (calculateAverageAudioFeatures fs)
        = sum_list (map tempo fs) / of_nat (length fs)
      \<and> valence (calculateAverageAudioFeatures fs)
        = sum_list (map valence fs) / of_nat (length fs))
   \<and> calculateAverageAudioFeatures []
        = \<lparr>danceability = 0, energy = 0, tempo = 0, valence = 0\<rparr>"
  by (simp add: calculateAverageAudioFeatures_def mean_def INITIAL_AUDIO_FEATURES_def)

theorem average_audio_features_witness:
  "calculateAverageAudioFeatures
     [\<lparr>danceability = 50, energy = 25, tempo = 100, valence = 100\<rparr>,
      \<lparr>danceability = 100, energy = 75, tempo = 140, valence = 0\<rparr>]
   = \<lparr>danceability = 75, energy = 50, tempo = 120, valence = 50\<rparr>"
proof -
  let ?fs = "[\<lparr>danceability = 50, energy = 25, tempo = 100, valence = 100 :: rat\<rparr>,
              \<lparr>danceability = 100, energy = 75, tempo = 140, valence = 0\<rparr>]"
  have "?fs \<noteq> []" by simp
  with average_audio_features [of ?fs]
  have "danceability (calculateAverageAudioFeatures ?fs) = 75"
    and "energy (calculateAverageAudioFeatures ?fs) = 50"
    and "tempo (calculateAverageAudioFeatures ?fs) = 120"
    and "valence (calculateAverageAudioFeatures ?fs) = 50"
    by simp_all
  then show ?thesis by (cases "calculateAverageAudioFeatures ?fs") simp
qed

subsection \<open>getPlaylists\<close>

lemma playlist_bodies_map:
  "\<forall>row\<in>set rows. api (f row) = Json (pl row) \<Longrightarrow>
   playlist_bodies (map (\<lambda>row. api (f row)) rows) = Some (map pl rows)"
  by (induction rows) auto

lemma playlist_fields_zip:
  "length ps = length afs \<Longrightarrow>
   map p_id (map (\<lambda>(p, af). playlist_fields p af) (zip ps afs)) = map pl_id ps
   \<and> map p_image (map (\<lambda>(p, af). playlist_fields p af) (zip ps afs))
       = map (\<lambda>p. if 1 < length (pl_images p) then Some (pl_images p ! 1) else None) ps"
  by (induction ps afs rule: list_induct2) (simp_all add: playlist_fields_def)

lemma playlists_of_rows_ok:
  assumes "\<forall>row\<in>set rows. playlist_api env (GetPlaylistReq (spotifyId row)) = Json (pl row)"
  shows "\<exists>ps. fst (playlists_of_rows env rows) = Inr ps
           \<and> length ps = length rows
           \<and> map p_id ps = map (\<lambda>row. pl_id (pl row)) rows
           \<and> map p_image ps
               = map (\<lambda>row. if 1 < length (pl_images (pl row))
                            then Some (pl_images (pl row) ! 1) else None) rows"
proof -
  let ?afs = "map (\<lambda>fetched. average_of_bodies (fst fetched))
                (map (\<lambda>playlist. sequentialFetch (audio_features_api env)
                                    (audio_feature_configs playlist))
                     (map pl rows))"
  let ?ps = "map (\<lambda>(p, af). playlist_fields p af) (zip (map pl rows) ?afs)"
  have b: "playlist_bodies
             (map (playlist_api env) (map (\<lambda>playlist. GetPlaylistReq (spotifyId playlist)) rows))
             = Some (map pl rows)"
    using playlist_bodies_map [of rows "playlist_api env" "\<lambda>row. GetPlaylistReq (spotifyId row)" pl]
      assms
    by (simp add: comp_def)
  have r: "fst (playlists_of_rows env rows) = Inr ?ps"
    unfolding playlists_of_rows_def Let_def b by simp
  have l: "length (map pl rows) = length ?afs" by simp
  from playlist_fields_zip [OF l]
  have "map p_id ?ps = map (\<lambda>row. pl_id (pl row)) rows"
    and "map p_image ?ps
           = map (\<lambda>row. if 1 < length (pl_images (pl row))
                        then Some (pl_images (pl row) ! 1) else None) rows"
    by (simp_all add: comp_def)
  moreover have "length ?ps = length rows" by simp
  ultimately show ?thesis using r by blast
qed

lemma images_present:
  "map f xs = map (\<lambda>y. Some (g y)) ys \<Longrightarrow> list_all (\<lambda>x. f x \<noteq> None) xs"
  by (induction xs arbitrary: ys) auto

lemma getPlaylists_resolve_queries:
  "DbFindMany (findMany_args c input) \<in> set (snd (getPlaylists_resolve env c input))"
  by (auto simp: getPlaylists_resolve_def Let_def split: sum.splits prod.splits)

lemma getPlaylists_queries:
  "DbFindMany (findMany_args c input) \<in> set (snd (getPlaylists env c input))"
  using getPlaylists_resolve_queries [of c input env]
  by (cases "getPlaylists_resolve env c input")
     (auto simp: getPlaylists_def split: sum.splits)

text \<open>
  The output schema at work: when the resolver returns a playlist without its second
  image, the procedure throws.
\<close>

lemma getPlaylists_output_rejected:
  assumes "fst (getPlaylists_resolve env c input) = Inr output"
    and "playlist \<in> set (items output)" and "p_image playlist = None"
  shows "fst (getPlaylists env c input)
           = Inl (TRPCError ''INTERNAL_SERVER_ERROR'' ''Output validation failed'' (Some ZodError))"
proof -
  have "\<not> getPlaylists_output_ok output"
    using assms(2,3) by (auto simp: getPlaylists_output_ok_def list_all_iff)
  then show ?thesis
    using assms(1) by (cases "getPlaylists_resolve env c input") (simp add: getPlaylists_def)
qed

text \<open>
  Claim C3. A getPlaylists call with limit \<open>l\<close> (an integer from 1 to 100) asks the store
  for \<open>l + 1\<close> rows. Let the store answer at most that many rows, and let the page be all
  of them but the last if \<open>l + 1\<close> rows came back, and all of them otherwise. When the
  upstream service knows the playlist of every row of the page, each with a second image
  (which the output schema requires), the call returns one playlist for each row of the
  page, in order, with the id and the second image of the row's playlist; if \<open>l + 1\<close> rows
  came back it returns \<open>l\<close> items and the next cursor is the id of the last row,
  otherwise there is no next cursor. The witness is limit 20 with 21 and with 20 rows.
\<close>

theorem getPlaylists_pagination:
  assumes "gp_limit input = Some (of_int l)" and "1 \<le> l" and "l \<le> 100"
    and "playlist_findMany env (findMany_args c input) = found"
    and "int (length found) \<le> l + 1"
    and "page = (if int (length found) = l + 1 then butlast found else found)"
    and "\<forall>row\<in>set page.
           playlist_api env (GetPlaylistReq (spotifyId row)) = Json (pl row)
           \<and> 1 < length (pl_images (pl row))"
  shows "take_arg (findMany_args c input) = of_int l + 1
         \<and> DbFindMany (findMany_args c input) \<in> set (snd (getPlaylists env c input))
         \<and> (\<exists>out. fst (getPlaylists env c input) = Inr out
               \<and> map p_id (items out) = map (\<lambda>row. pl_id (pl row)) page
               \<and> map p_image (items out) = map (\<lambda>row. Some (pl_images (pl row) ! 1)) page
               \<and> total out = playlist_count env (where_filter c input)
               \<and> (if int (length found) = l + 1
                  then int (length (items out)) = l
                       \<and> nextCursor out = Some (row_id (last found))
                  else length (items out) = length found
                       \<and> nextCursor out = None))"
proof -
  have lim: "effective_limit input = of_int l"
    using assms(1) by (simp add: effective_limit_def)
  have 1: "take_arg (findMany_args c input) = of_int l + 1"
    by (simp add: findMany_args_def lim)
  have 2: "DbFindMany (findMany_args c input) \<in> set (snd (getPlaylists env c input))"
    by (rule getPlaylists_queries)
  let ?next = "if int (length found) = l + 1 then Some (row_id (last found)) else None"
  have p: "paginate (of_int l) found = Inr (page, ?next)"
  proof (cases "int (length found) = l + 1")
    case True
    with assms(2) have ne: "found \<noteq> []" by auto
    have "rat_of_int l < rat_of_int (int (length found))"
      unfolding of_int_less_iff using True by simp
    then have "of_int l < (of_nat (length found) :: rat)" by simp
    then show ?thesis using ne True assms(6) by (simp add: paginate_def)
  next
    case False
    with assms(5) have "int (length found) \<le> l" by simp
    then have "rat_of_int (int (length found)) \<le> rat_of_int l"
      unfolding of_int_le_iff .
    then have "\<not> of_int l < (of_nat (length found) :: rat)" by simp
    then show ?thesis using False assms(6) by (simp add: paginate_def)
  qed
  have known: "\<forall>row\<in>set page. playlist_api env (GetPlaylistReq (spotifyId row)) = Json (pl row)"
    using assms(7) by blast
  from playlists_of_rows_ok [OF known]
  obtain ps where ps: "fst (playlists_of_rows env page) = Inr ps"
    and len: "length ps = length page"
    and ids: "map p_id ps = map (\<lambda>row. pl_id (pl row)) page"
    and imgs0: "map p_image ps
                  = map (\<lambda>row. if 1 < length (pl_images (pl row))
                               then Some (pl_images (pl row) ! 1) else None) page"
    by blast
  have imgs: "map p_image ps = map (\<lambda>row. Some (pl_images (pl row) ! 1)) page"
    unfolding imgs0 using assms(7) by simp
  let ?out = "\<lparr>items = ps, total = playlist_count env (where_filter c input), nextCursor = ?next\<rparr>"
  have res: "fst (getPlaylists_resolve env c input) = Inr ?out"
    using p ps assms(4)
    by (cases "playlists_of_rows env page") (simp add: getPlaylists_resolve_def Let_def lim)
  have ok: "getPlaylists_output_ok ?out"
    using images_present [OF imgs] by (simp add: getPlaylists_output_ok_def)
  have out: "fst (getPlaylists env c input) = Inr ?out"
    using res ok by (cases "getPlaylists_resolve env c input") (simp add: getPlaylists_def)
  have n: "if int (length found) = l + 1
           then int (length (items ?out)) = l \<and> nextCursor ?out = Some (row_id (last found))
           else length (items ?out) = length found \<and> nextCursor ?out = None"
  proof (cases "int (length found) = l + 1")
    case True
    with assms(2) have "found \<noteq> []" by auto
    with True assms(6) len show ?thesis by (cases found) auto
  next
    case False
    with assms(6) len show ?thesis by simp
  qed
  have 3: "\<exists>out. fst (getPlaylists env c input) = Inr out
               \<and> map p_id (items out) = map (\<lambda>row. pl_id (pl row)) page
               \<and> map p_image (items out) = map (\<lambda>row. Some (pl_images (pl row) ! 1)) page
               \<and> total out = playlist_count env (where_filter c input)
               \<and> (if int (length found) = l + 1
                  then int (length (items out)) = l
                       \<and> nextCursor out = Some (row_id (last found))
                  else length (items out) = length found
                       \<and> nextCursor out = None)"
    by (rule exI [of _ ?out]) (use out ids imgs n in simp)
  show ?thesis by (intro conjI) (fact 1 2 3)+
qed

lemma length_demo_rows: "length (demo_rows n) = n"
  by (simp add: demo_rows_def)

lemma store_env_api:
  "playlist_api (store_env n) (GetPlaylistReq i)
     = Json \<lparr>pl_id = i, pl_name = ''Mix'', pl_description = [], pl_images = demo_images,
             pl_track_ids = [''t1'', ''t2'']\<rparr>"
  by (simp add: store_env_def)

lemma store_env_found:
  "playlist_findMany (store_env n) (findMany_args demo_ctx demo_playlists_input)
     = take 21 (demo_rows n)"
  by (simp add: store_env_def findMany_args_def effective_limit_def demo_playlists_input_def)

theorem getPlaylists_pagination_witness:
  "(\<exists>out. fst (getPlaylists (store_env 21) demo_ctx demo_playlists_input) = Inr out
       \<and> length (items out) = 20 \<and> nextCursor out = Some ''row20''
       \<and> map p_image (items out) = replicate 20 (Some (demo_images ! 1)))
   \<and> (\<exists>out. fst (getPlaylists (store_env 20) demo_ctx demo_playlists_input) = Inr out
       \<and> length (items out) = 20 \<and> nextCursor out = None)
   \<and> take_arg (findMany_args demo_ctx demo_playlists_input) = 21"
proof -
  let ?pl = "\<lambda>row. \<lparr>pl_id = spotifyId row, pl_name = ''Mix'', pl_description = [],
                     pl_images = demo_images, pl_track_ids = [''t1'', ''t2'']\<rparr>"
  have l: "gp_limit demo_playlists_input = Some (of_int 20)" "1 \<le> (20::int)" "(20::int) \<le> 100"
    by (simp_all add: demo_playlists_input_def)
  have f21: "playlist_findMany (store_env 21) (findMany_args demo_ctx demo_playlists_input)
               = demo_rows 21"
    by (simp add: store_env_found length_demo_rows)
  have f20: "playlist_findMany (store_env 20) (findMany_args demo_ctx demo_playlists_input)
               = demo_rows 20"
    by (simp add: store_env_found length_demo_rows)
  have n21: "int (length (demo_rows 21)) \<le> 20 + 1"
    by (simp add: length_demo_rows)
  have n20: "int (length (demo_rows 20)) \<le> 20 + 1"
    by (simp add: length_demo_rows)
  have p21: "butlast (demo_rows 21)
               = (if int (length (demo_rows 21)) = 20 + 1 then butlast (demo_rows 21)
                  else demo_rows 21)"
    by (simp add: length_demo_rows)
  have p20: "demo_rows 20
               = (if int (length (demo_rows 20)) = 20 + 1 then butlast (demo_rows 20)
                  else demo_rows 20)"
    by (simp add: length_demo_rows)
  have u21: "\<forall>row\<in>set (butlast (demo_rows 21)).
               playlist_api (store_env 21) (GetPlaylistReq (spotifyId row)) = Json (?pl row)
               \<and> 1 < length (pl_images (?pl row))"
    by (simp add: store_env_api demo_images_def)
  have u20: "\<forall>row\<in>set (demo_rows 20).
               playlist_api (store_env 20) (GetPlaylistReq (spotifyId row)) = Json (?pl row)
               \<and> 1 < length (pl_images (?pl row))"
    by (simp add: store_env_api demo_images_def)
  have last21: "row_id (last (demo_rows 21)) = ''row20''"
    by (simp add: demo_rows_def last_map digit_char_def)
  from getPlaylists_pagination [OF l f21 n21 p21 u21]
  obtain out1 where a: "fst (getPlaylists (store_env 21) demo_ctx demo_playlists_input) = Inr out1"
    and a1: "map p_image (items out1) = map (\<lambda>row. Some (pl_images (?pl row) ! 1)) (butlast (demo_rows 21))"
    and a2: "int (length (items out1)) = 20 \<and> nextCursor out1 = Some (row_id (last (demo_rows 21)))"
    by (auto simp: length_demo_rows)
  from getPlaylists_pagination [OF l f20 n20 p20 u20]
  obtain out2 where b: "fst (getPlaylists (store_env 20) demo_ctx demo_playlists_input) = Inr out2"
    and b2: "length (items out2) = length (demo_rows 20) \<and> nextCursor out2 = None"
    by (auto simp: length_demo_rows)
  have a3: "map p_image (items out1) = replicate 20 (Some (demo_images ! 1))"
    unfolding a1 by (simp add: map_replicate_const length_demo_rows)
  have 1: "\<exists>out. fst (getPlaylists (store_env 21) demo_ctx demo_playlists_input) = Inr out
       \<and> length (items out) = 20 \<and> nextCursor out = Some ''row20''
       \<and> map p_image (items out) = replicate 20 (Some (demo_images ! 1))"
    using a a2 a3 last21 by auto
  have 2: "\<exists>out. fst (getPlaylists (store_env 20) demo_ctx demo_playlists_input) = Inr out
       \<and> length (items out) = 20 \<and> nextCursor out = None"
    using b b2 by (auto simp: length_demo_rows)
  have 3: "take_arg (findMany_args demo_ctx demo_playlists_input) = 21"
    using getPlaylists_pagination [OF l f21 n21 p21 u21] by simp
  show ?thesis by (intro conjI) (fact 1 2 3)+
qed

text \<open>
  Claim C10. A getPlaylists call whose limit is null or omitted does what the call with
  limit 50 does: the limit in force is 50 and 51 rows are asked for. The input schema
  accepts the missing limit.
\<close>

theorem getPlaylists_default_limit:
  "getPlaylists env c (input\<lparr>gp_limit := None\<rparr>) = getPlaylists env c (input\<lparr>gp_limit := Some 50\<rparr>)
   \<and> effective_limit (input\<lparr>gp_limit := None\<rparr>) = 50
   \<and> take_arg (findMany_args c (input\<lparr>gp_limit := None\<rparr>)) = 51
   \<and> DbFindMany (findMany_args c (input\<lparr>gp_limit := None\<rparr>))
       \<in> set (snd (getPlaylists env c (input\<lparr>gp_limit := None\<rparr>)))
   \<and> getPlaylists_input_ok (input\<lparr>gp_limit := None\<rparr>)"
proof -
  have e: "effective_limit (input\<lparr>gp_limit := None\<rparr>) = effective_limit (input\<lparr>gp_limit := Some 50\<rparr>)"
    by (simp add: effective_limit_def)
  have w: "where_filter c (input\<lparr>gp_limit := None\<rparr>) = where_filter c (input\<lparr>gp_limit := Some 50\<rparr>)"
    by (simp add: where_filter_def)
  have a: "findMany_args c (input\<lparr>gp_limit := None\<rparr>) = findMany_args c (input\<lparr>gp_limit := Some 50\<rparr>)"
    by (simp add: findMany_args_def e w)
  have r: "getPlaylists_resolve env c (input\<lparr>gp_limit := None\<rparr>)
             = getPlaylists_resolve env c (input\<lparr>gp_limit := Some 50\<rparr>)"
    by (simp add: getPlaylists_resolve_def e w a)
  have 1: "getPlaylists env c (input\<lparr>gp_limit := None\<rparr>)
             = getPlaylists env c (input\<lparr>gp_limit := Some 50\<rparr>)"
    by (simp add: getPlaylists_def r)
  have 2: "effective_limit (input\<lparr>gp_limit := None\<rparr>) = 50"
    by (simp add: effective_limit_def)
  have 3: "take_arg (findMany_args c (input\<lparr>gp_limit := None\<rparr>)) = 51"
    by (simp add: findMany_args_def 2)
  have 5: "getPlaylists_input_ok (input\<lparr>gp_limit := None\<rparr>)"
    by (simp add: getPlaylists_input_ok_def)
  show ?thesis using 1 2 3 5 getPlaylists_queries by blast
qed

theorem getPlaylists_default_limit_witness:
  "getPlaylists (store_env 3) demo_ctx \<lparr>gp_limit = None, gp_cursor = None, isCreatorOnly = False\<rparr>
     = getPlaylists (store_env 3) demo_ctx \<lparr>gp_limit = Some 50, gp_cursor = None, isCreatorOnly = False\<rparr>
   \<and> take_arg (findMany_args demo_ctx \<lparr>gp_limit = None, gp_cursor = None, isCreatorOnly = False\<rparr>) = 51"
  using getPlaylists_default_limit
          [of "store_env 3" demo_ctx "\<lparr>gp_limit = None, gp_cursor = None, isCreatorOnly = False\<rparr>"]
  by simp

end
